theory Spec2Isabelle
  imports Complex_Main "HOL-Library.Sublist"
begin

section \<open>Python strings and slices\<close>

text \<open>
  A Python \<open>str\<close> is modelled as a \<open>string\<close>. The character predicates are the
  ASCII ones: \<open>lower\<close> maps \<open>A..Z\<close> to \<open>a..z\<close> and leaves every other character alone,
  \<open>isalnum\<close> holds of the ASCII letters and digits. Every table of the program and every
  pattern it matches is ASCII.
\<close>

definition ascii_uppercase :: string where
  "ascii_uppercase = ''ABCDEFGHIJKLMNOPQRSTUVWXYZ''"

definition ascii_lowercase :: string where
  "ascii_lowercase = ''abcdefghijklmnopqrstuvwxyz''"

definition ascii_digits :: string where
  "ascii_digits = ''0123456789''"

definition lower_char :: "char \<Rightarrow> char" where
  "lower_char c =
     (case map_of (zip ascii_uppercase ascii_lowercase) c of Some d \<Rightarrow> d | None \<Rightarrow> c)"

definition lower :: "string \<Rightarrow> string" where
  "lower s = map lower_char s"

definition isalnum :: "char \<Rightarrow> bool" where
  "isalnum c = (c \<in> set (ascii_uppercase @ ascii_lowercase @ ascii_digits))"

definition startswith :: "string \<Rightarrow> string \<Rightarrow> bool" where
  "startswith s p = (take (length p) s = p)"

text \<open>\<open>xs[:n]\<close> for an \<open>int\<close> \<open>n\<close>: a negative bound counts from the end.\<close>

definition py_take :: "int \<Rightarrow> 'a list \<Rightarrow> 'a list" where
  "py_take n xs = (if 0 \<le> n then take (nat n) xs else take (length xs - nat (- n)) xs)"

text \<open>\<open>xs[a:b]\<close> for constants \<open>0 \<le> a \<le> b\<close>.\<close>

definition py_slice :: "nat \<Rightarrow> nat \<Rightarrow> 'a list \<Rightarrow> 'a list" where
  "py_slice a b xs = take (b - a) (drop a xs)"

text \<open>\<open>int(q)\<close> of a number: truncation towards zero.\<close>

definition py_int :: "real \<Rightarrow> int" where
  "py_int q = (if 0 \<le> q then \<lfloor>q\<rfloor> else \<lceil>q\<rceil>)"

text \<open>
  The loop that the program writes three times,
  \<^verbatim>\<open>seen = set(); unique = []
  for x in xs:
      if key(x) not in seen: seen.add(key(x)); unique.append(x)\<close>
  with the set of keys seen so far as an argument.
\<close>

fun seen_loop :: "('a \<Rightarrow> 'k) \<Rightarrow> 'k set \<Rightarrow> 'a list \<Rightarrow> 'a list" where
  "seen_loop key seen [] = []"
| "seen_loop key seen (x # xs) =
     (if key x \<notin> seen then x # seen_loop key (insert (key x) seen) xs
      else seen_loop key seen xs)"

section \<open>trending\_hashtag\_fetcher.py\<close>

subsection \<open>Data\<close>

record TrendingHashtagData =
  hashtag :: string
  platform :: string
  engagement_score :: "int option"
  growth_rate :: "real option"
  category :: "string option"
  last_updated :: "string option"

record TrendingResult =
  tr_hashtags :: "TrendingHashtagData list"
  tr_source :: string
  tr_category :: string
  tr_platform :: string
  tr_success :: bool
  tr_error :: "string option"

text \<open>A cache entry \<^verbatim>\<open>{"data": {"hashtags", "category", "platform"}, "timestamp"}\<close>.\<close>

record cache_data =
  cd_hashtags :: "TrendingHashtagData list"
  cd_category :: string
  cd_platform :: string

record cache_entry =
  data :: cache_data
  timestamp :: real

text \<open>
  The fetcher object: its cache and its set of blocked sources. \<open>requests\<close> is the trace
  of the hosts to which \<^verbatim>\<open>requests.get\<close> was called, oldest first; the program does not
  store it, the model does so that a network request is observable.
\<close>

record TrendingHashtagFetcher =
  cache :: "string \<Rightarrow> cache_entry option"
  blocked_sources :: "string set"
  requests :: "string list"

definition new_fetcher :: TrendingHashtagFetcher where
  "new_fetcher = \<lparr>cache = Map.empty, blocked_sources = {}, requests = []\<rparr>"

definition cache_duration :: real where
  "cache_duration = 3600"

subsection \<open>The environment of one call\<close>

text \<open>
  What \<^verbatim>\<open>requests.get(url)\<close> followed by \<^verbatim>\<open>raise_for_status()\<close> and the parse of the
  page comes to: the stripped texts of the elements the selector finds, an
  \<^verbatim>\<open>HTTPError\<close> with its status code, another \<^verbatim>\<open>RequestException\<close>, or any other
  exception.
\<close>

datatype http_outcome =
  Page "string list"
| HTTPError nat
| RequestException
| OtherException

text \<open>
  The answer of \<^verbatim>\<open>AIAnalyzer.analyze_image\<close>: the dictionary
  \<^verbatim>\<open>{"success", "content", "error"}\<close>, an absent key or \<^verbatim>\<open>None\<close> as \<open>None\<close>.
\<close>

record ai_response =
  ai_success :: bool
  ai_content :: "string option"
  ai_error :: "string option"

text \<open>What \<^verbatim>\<open>json.loads\<close> returns.\<close>

datatype json =
  JNull
| JBool bool
| JInt int
| JFloat real
| JStr string
| JArr "json list"
| JObj "(string \<times> json) list"

text \<open>
  Everything outside the program that one call of \<^verbatim>\<open>generate_enhanced_hashtags\<close> (or of
  \<^verbatim>\<open>get_trending_hashtags\<close>) consults. \<open>http_get host c\<close> is the outcome of the GET
  to \<open>host\<close> for the category text \<open>c\<close> (each host is asked at most once in a call);
  \<open>clock_read k\<close> and \<open>clock_save k\<close> are the readings of \<^verbatim>\<open>time.time()\<close> when the
  cache key \<open>k\<close> is checked and when it is saved; \<open>strftime\<close> is the text
  \<^verbatim>\<open>time.strftime\<close> gives; \<open>bs4_importable\<close> says whether
  \<^verbatim>\<open>from bs4 import BeautifulSoup\<close> succeeds; \<open>hashtag_result\<close> is the analyzer's
  answer to the call of \<^verbatim>\<open>analyze_image\<close> with the hashtag prompt;
  \<open>json_loads\<close> is \<^verbatim>\<open>json.loads\<close>, \<open>None\<close> for a
  \<^verbatim>\<open>JSONDecodeError\<close>.
\<close>

record world =
  bs4_importable :: bool
  http_get :: "string \<Rightarrow> string \<Rightarrow> http_outcome"
  clock_read :: "string \<Rightarrow> real"
  clock_save :: "string \<Rightarrow> real"
  strftime :: string
  hashtag_result :: ai_response
  json_loads :: "string \<Rightarrow> json option"

datatype py_exn = ImportError | AttributeError | TypeError | IndexError

subsection \<open>Cache\<close>

definition is_cache_valid :: "TrendingHashtagFetcher \<Rightarrow> real \<Rightarrow> string \<Rightarrow> bool" where
  "is_cache_valid s now cache_key =
     (case cache s cache_key of
        None \<Rightarrow> False
      | Some e \<Rightarrow> now - timestamp e < cache_duration)"

definition get_from_cache ::
  "TrendingHashtagFetcher \<Rightarrow> real \<Rightarrow> string \<Rightarrow> cache_data option" where
  "get_from_cache s now cache_key =
     (if is_cache_valid s now cache_key then map_option data (cache s cache_key) else None)"

definition save_to_cache ::
  "TrendingHashtagFetcher \<Rightarrow> real \<Rightarrow> string \<Rightarrow> cache_data \<Rightarrow> TrendingHashtagFetcher" where
  "save_to_cache s now cache_key d =
     s\<lparr>cache := (cache s)(cache_key \<mapsto> \<lparr>data = d, timestamp = now\<rparr>)\<rparr>"

subsection \<open>The curated table\<close>

definition trending_data :: "(string \<times> (string \<times> string list) list) list" where
  "trending_data =
   [(''food'',
      [(''instagram'', [''#foodie2025'', ''#healthyrecipes'', ''#plantbasedmeals'',
                        ''#foodphotography'', ''#homecooking'']),
       (''facebook'', [''#familymeals'', ''#cookingathome'', ''#healthyliving'', ''#foodblog''])]),
    (''travel'',
      [(''instagram'', [''#wanderlust2025'', ''#solotravel'', ''#sustainabletravel'',
                        ''#hiddenplaces'', ''#localcuisine'']),
       (''facebook'', [''#familytravel'', ''#roadtrip'', ''#vacation2025'', ''#traveltips''])]),
    (''fashion'',
      [(''instagram'', [''#ootd2025'', ''#sustainablefashion'', ''#vintagestyle'',
                        ''#thriftfinds'', ''#styleinspo'']),
       (''facebook'', [''#fashionadvice'', ''#styletrends'', ''#outfitideas'',
                       ''#fashion2025''])]),
    (''fitness'',
      [(''instagram'', [''#fitnessjourney'', ''#homeworkout'', ''#mentalhealthfitness'',
                        ''#strongwomen'', ''#fitnessmotivation'']),
       (''facebook'', [''#healthylifestyle'', ''#workoutmotivation'', ''#wellness'',
                       ''#fitnessgoals''])]),
    (''business'',
      [(''instagram'', [''#entrepreneur2025'', ''#businessowner'', ''#digitalnomad'',
                        ''#hustle'', ''#mindset'']),
       (''facebook'', [''#smallbusiness'', ''#entrepreneurship'', ''#businesstips'',
                       ''#success''])]),
    (''events'',
      [(''instagram'', [''#celebration2025'', ''#festivalstoday'', ''#culturalheritage'',
                        ''#traditionalmeets'', ''#festivalvibes'', ''#spiritualjourney'',
                        ''#communitylove'', ''#heritagepride'', ''#festivemood'',
                        ''#sacredmoments'']),
       (''facebook'', [''#familyfestival'', ''#culturalevent'', ''#traditioncelebration'',
                       ''#spiritualgathering'', ''#festivalmemories''])]),
    (''lifestyle'',
      [(''instagram'', [''#mindfuliving'', ''#dailyinspo'', ''#gratitudepractice'',
                        ''#selfcaresunday'', ''#positivevibes'']),
       (''facebook'', [''#lifelessons'', ''#inspiration'', ''#motivation'', ''#wellbeing'',
                       ''#mindfulness''])]),
    (''art'',
      [(''instagram'', [''#artistsoninstagram'', ''#creativeminds'', ''#artoftheday'',
                        ''#digitalart2025'', ''#arttherapy'']),
       (''facebook'', [''#localartists'', ''#artcommunity'', ''#creativeexpression'',
                       ''#artlovers'', ''#inspiration''])])]"

text \<open>\<^verbatim>\<open>trending_data.get(category, {}).get(platform, [])\<close>\<close>

definition hashtags_list :: "string \<Rightarrow> string \<Rightarrow> string list" where
  "hashtags_list cat plat =
     (case map_of trending_data cat of
        None \<Rightarrow> []
      | Some by_platform \<Rightarrow>
          (case map_of by_platform plat of None \<Rightarrow> [] | Some tags \<Rightarrow> tags))"

definition get_category_trending_hashtags ::
  "world \<Rightarrow> string \<Rightarrow> string \<Rightarrow> TrendingHashtagData list" where
  "get_category_trending_hashtags w cat plat =
     map (\<lambda>(i, tag).
            \<lparr>hashtag = tag, platform = plat,
             engagement_score = Some (800 - int i * 50),
             growth_rate = Some (12 / 100 - of_nat i * (15 / 1000)),
             category = Some cat, last_updated = Some (strftime w)\<rparr>)
         (enumerate 0 (hashtags_list cat plat))"

text \<open>
  \<^verbatim>\<open>_get_simulated_trending_data\<close>: the records are fresh, so updating them in place
  is a map. A score that is \<^verbatim>\<open>None\<close> or 0 is falsy and stays as it is. The
  multiplier is 1.2 for the source \<^verbatim>\<open>"ritetag"\<close> and 1.0 otherwise; the product is
  taken exactly (the floating-point product of the table's scores is exact too).
\<close>

definition get_simulated_trending_data ::
  "world \<Rightarrow> string \<Rightarrow> string \<Rightarrow> string \<Rightarrow> TrendingHashtagData list" where
  "get_simulated_trending_data w cat plat source =
     (let multiplier = (if source = ''ritetag'' then 12 / 10 else 1 :: real);
          suffix = (if source = ''ritetag'' then ''RT'' else '''')
      in map (\<lambda>h.
                (let h1 = (case engagement_score h of
                             None \<Rightarrow> h
                           | Some sc \<Rightarrow>
                               if sc \<noteq> 0
                               then h\<lparr>engagement_score := Some (py_int (of_int sc * multiplier))\<rparr>
                               else h)
                 in if suffix \<noteq> [] then h1\<lparr>hashtag := hashtag h1 @ suffix\<rparr> else h1))
             (get_category_trending_hashtags w cat plat))"

subsection \<open>Removing duplicates\<close>

text \<open>The sort key \<^verbatim>\<open>x.engagement_score or 0\<close>.\<close>

definition score_key :: "TrendingHashtagData \<Rightarrow> int" where
  "score_key x = (case engagement_score x of None \<Rightarrow> 0 | Some sc \<Rightarrow> if sc \<noteq> 0 then sc else 0)"

text \<open>
  \<^verbatim>\<open>sorted(hashtags, key=..., reverse=True)\<close> is stable: records of equal key keep
  their order. It is the stable ascending sort by the negated key.
\<close>

definition sorted_reverse :: "TrendingHashtagData list \<Rightarrow> TrendingHashtagData list" where
  "sorted_reverse hs = sort_key (\<lambda>x. - score_key x) hs"

definition remove_duplicate_hashtags ::
  "TrendingHashtagData list \<Rightarrow> TrendingHashtagData list" where
  "remove_duplicate_hashtags hs = seen_loop (\<lambda>h. lower (hashtag h)) {} (sorted_reverse hs)"

subsection \<open>Scraping\<close>

text \<open>
  The scraping functions return the list they built, or the exception that leaves them,
  together with the fetcher as they leave it. The import of \<^verbatim>\<open>bs4\<close> is their first
  statement and stands outside their \<^verbatim>\<open>try\<close>.
\<close>

definition scrape_instagram_trends ::
  "world \<Rightarrow> TrendingHashtagFetcher \<Rightarrow> string
     \<Rightarrow> (py_exn + TrendingHashtagData list) \<times> TrendingHashtagFetcher" where
  "scrape_instagram_trends w s cat =
     (let source_name = ''top-hashtags.com'' in
      if \<not> bs4_importable w then (Inl ImportError, s)
      else if source_name \<in> blocked_sources s then (Inr [], s)
      else
        (let s1 = s\<lparr>requests := requests s @ [source_name]\<rparr> in
         case http_get w source_name (lower cat) of
           Page texts \<Rightarrow>
             (Inr (map (\<lambda>(i, hashtag_text).
                          \<lparr>hashtag = hashtag_text, platform = ''instagram'',
                           engagement_score = Some (1000 - int i * 50),
                           growth_rate = Some (15 / 100 - of_nat i * (5 / 1000)),
                           category = Some cat, last_updated = Some (strftime w)\<rparr>)
                       (filter (\<lambda>(i, hashtag_text). startswith hashtag_text ''#'')
                          (enumerate 0 (take 20 texts)))),
              s1)
         | HTTPError status_code \<Rightarrow>
             (Inr [],
              if status_code = 403
              then s1\<lparr>blocked_sources := insert source_name (blocked_sources s1)\<rparr>
              else s1)
         | RequestException \<Rightarrow> (Inr [], s1)
         | OtherException \<Rightarrow> (Inr [], s1)))"

text \<open>
  One of the two blocks of \<^verbatim>\<open>_scrape_trend_websites\<close>, which differ in the host, the
  number of elements read, the first score and the first growth rate. The category text
  of the URL is \<^verbatim>\<open>quote_plus(category.lower())\<close>; the world answers for the lowercased
  category.
\<close>

definition scrape_site ::
  "world \<Rightarrow> TrendingHashtagFetcher \<Rightarrow> string \<Rightarrow> nat \<Rightarrow> int \<Rightarrow> real \<Rightarrow> string \<Rightarrow> string
     \<Rightarrow> TrendingHashtagData list \<times> TrendingHashtagFetcher" where
  "scrape_site w s host limit score0 growth0 cat plat =
     (let s1 = s\<lparr>requests := requests s @ [host]\<rparr> in
      case http_get w host (lower cat) of
        Page texts \<Rightarrow>
          (map (\<lambda>(i, t).
                  \<lparr>hashtag = (if \<not> startswith t ''#'' then ''#'' @ t else t),
                   platform = plat,
                   engagement_score = Some (score0 - int i * 50),
                   growth_rate = Some (growth0 - of_nat i * (5 / 1000)),
                   category = Some cat, last_updated = Some (strftime w)\<rparr>)
               (enumerate 0 (take limit texts)),
           s1)
      | HTTPError status_code \<Rightarrow>
          ([],
           if status_code = 403
           then s1\<lparr>blocked_sources := insert host (blocked_sources s1)\<rparr>
           else s1)
      | RequestException \<Rightarrow> ([], s1)
      | OtherException \<Rightarrow> ([], s1))"

definition scrape_trend_websites ::
  "world \<Rightarrow> TrendingHashtagFetcher \<Rightarrow> string \<Rightarrow> string
     \<Rightarrow> (py_exn + TrendingHashtagData list) \<times> TrendingHashtagFetcher" where
  "scrape_trend_websites w s cat plat =
     (if \<not> bs4_importable w then (Inl ImportError, s)
      else
        (let (h1, s1) =
               (if ''all-hashtag.com'' \<notin> blocked_sources s
                then scrape_site w s ''all-hashtag.com'' 15 900 (12 / 100) cat plat
                else ([], s));
             (h2, s2) =
               (if length h1 < 5 \<and> ''hashtagsforlikes.co'' \<notin> blocked_sources s1
                then scrape_site w s1 ''hashtagsforlikes.co'' 10 800 (10 / 100) cat plat
                else ([], s1));
             hashtags = h1 @ h2
         in (Inr (if length hashtags < 5
                  then hashtags @ get_category_trending_hashtags w cat plat
                  else hashtags),
             s2)))"

subsection \<open>The three providers\<close>

text \<open>
  Each provider reads the cache under its own key first. Nothing that follows in the
  Hashtagify and RiteTag providers can raise, so their \<^verbatim>\<open>except\<close> branch is never
  taken and has no counterpart here; the same holds of the outer \<^verbatim>\<open>except\<close> of the
  scraping provider, whose inner one is \<open>scraped_or_simulated\<close>.
\<close>

definition fetch_trending_from_hashtagify ::
  "world \<Rightarrow> TrendingHashtagFetcher \<Rightarrow> string \<Rightarrow> string
     \<Rightarrow> TrendingResult \<times> TrendingHashtagFetcher" where
  "fetch_trending_from_hashtagify w s cat plat =
     (let cache_key = ''hashtagify_'' @ cat @ ''_'' @ plat in
      case get_from_cache s (clock_read w cache_key) cache_key of
        Some cached_data \<Rightarrow>
          (\<lparr>tr_hashtags = cd_hashtags cached_data, tr_source = ''hashtagify_cache'',
            tr_category = cat, tr_platform = plat, tr_success = True, tr_error = None\<rparr>,
           s)
      | None \<Rightarrow>
          (let trending_hashtags = get_simulated_trending_data w cat plat ''general'';
               result_data = \<lparr>cd_hashtags = trending_hashtags, cd_category = cat,
                              cd_platform = plat\<rparr>
           in (\<lparr>tr_hashtags = trending_hashtags, tr_source = ''hashtagify_simulated'',
                tr_category = cat, tr_platform = plat, tr_success = True, tr_error = None\<rparr>,
               save_to_cache s (clock_save w cache_key) cache_key result_data)))"

definition fetch_trending_from_ritetag ::
  "world \<Rightarrow> TrendingHashtagFetcher \<Rightarrow> string \<Rightarrow> string
     \<Rightarrow> TrendingResult \<times> TrendingHashtagFetcher" where
  "fetch_trending_from_ritetag w s cat plat =
     (let cache_key = ''ritetag_'' @ cat @ ''_'' @ plat in
      case get_from_cache s (clock_read w cache_key) cache_key of
        Some cached_data \<Rightarrow>
          (\<lparr>tr_hashtags = cd_hashtags cached_data, tr_source = ''ritetag_cache'',
            tr_category = cat, tr_platform = plat, tr_success = True, tr_error = None\<rparr>,
           s)
      | None \<Rightarrow>
          (let trending_hashtags = get_simulated_trending_data w cat plat ''ritetag'';
               result_data = \<lparr>cd_hashtags = trending_hashtags, cd_category = cat,
                              cd_platform = plat\<rparr>
           in (\<lparr>tr_hashtags = trending_hashtags, tr_source = ''ritetag_simulated'',
                tr_category = cat, tr_platform = plat, tr_success = True, tr_error = None\<rparr>,
               save_to_cache s (clock_save w cache_key) cache_key result_data)))"

text \<open>
  The inner \<^verbatim>\<open>try\<close> of \<^verbatim>\<open>fetch_trending_from_web_scraping\<close>: the Instagram scrape
  when the platform is \<^verbatim>\<open>"instagram"\<close>, then the trend websites; an exception of
  either ends it.
\<close>

definition scrape_sources ::
  "world \<Rightarrow> TrendingHashtagFetcher \<Rightarrow> string \<Rightarrow> string
     \<Rightarrow> (py_exn + TrendingHashtagData list) \<times> TrendingHashtagFetcher" where
  "scrape_sources w s cat plat =
     (let (r1, s1) = (if plat = ''instagram'' then scrape_instagram_trends w s cat
                      else (Inr [], s))
      in case r1 of
           Inl e \<Rightarrow> (Inl e, s1)
         | Inr hashtags \<Rightarrow>
             (case scrape_trend_websites w s1 cat plat of
                (Inl e, s2) \<Rightarrow> (Inl e, s2)
              | (Inr hashtags_from_trend_sites, s2) \<Rightarrow>
                  (Inr (hashtags @ hashtags_from_trend_sites), s2)))"

text \<open>
  The two fallbacks of \<^verbatim>\<open>fetch_trending_from_web_scraping\<close>: the simulated data when
  the scraping raised, and again when what there is by then is empty.
\<close>

definition scraped_or_simulated ::
  "world \<Rightarrow> (py_exn + TrendingHashtagData list) \<Rightarrow> string \<Rightarrow> string
     \<Rightarrow> TrendingHashtagData list" where
  "scraped_or_simulated w r cat plat =
     (let trending_hashtags =
            (case r of
               Inl scraping_error \<Rightarrow>
                 get_simulated_trending_data w cat plat ''webscrape_fallback''
             | Inr scraped \<Rightarrow> scraped)
      in if trending_hashtags = []
         then get_simulated_trending_data w cat plat ''webscrape_fallback''
         else trending_hashtags)"

definition fetch_trending_from_web_scraping ::
  "world \<Rightarrow> TrendingHashtagFetcher \<Rightarrow> string \<Rightarrow> string
     \<Rightarrow> TrendingResult \<times> TrendingHashtagFetcher" where
  "fetch_trending_from_web_scraping w s cat plat =
     (let cache_key = ''webscrape_'' @ cat @ ''_'' @ plat in
      case get_from_cache s (clock_read w cache_key) cache_key of
        Some cached_data \<Rightarrow>
          (\<lparr>tr_hashtags = cd_hashtags cached_data, tr_source = ''webscrape_cache'',
            tr_category = cat, tr_platform = plat, tr_success = True, tr_error = None\<rparr>,
           s)
      | None \<Rightarrow>
          (let (r, s1) = scrape_sources w s cat plat;
               trending_hashtags = scraped_or_simulated w r cat plat;
               unique_hashtags = remove_duplicate_hashtags trending_hashtags;
               result_data = \<lparr>cd_hashtags = take 20 unique_hashtags, cd_category = cat,
                              cd_platform = plat\<rparr>
           in (\<lparr>tr_hashtags = take 20 unique_hashtags,
                tr_source = ''web_scraping_with_fallback'',
                tr_category = cat, tr_platform = plat, tr_success = True, tr_error = None\<rparr>,
               save_to_cache s1 (clock_save w cache_key) cache_key result_data)))"

subsection \<open>The aggregator\<close>

type_synonym fetch_method =
  "world \<Rightarrow> TrendingHashtagFetcher \<Rightarrow> string \<Rightarrow> string
     \<Rightarrow> TrendingResult \<times> TrendingHashtagFetcher"

definition sources :: "(string \<times> fetch_method) list" where
  "sources =
     [(''web_scraping'', fetch_trending_from_web_scraping),
      (''hashtagify'', fetch_trending_from_hashtagify),
      (''ritetag'', fetch_trending_from_ritetag)]"

text \<open>
  The loop over the sources, with \<^verbatim>\<open>all_hashtags\<close> and \<^verbatim>\<open>sources_tried\<close>. No
  provider raises, so every source is tried.
\<close>

fun try_sources ::
  "world \<Rightarrow> string \<Rightarrow> string \<Rightarrow> (string \<times> fetch_method) list
     \<Rightarrow> TrendingHashtagData list \<times> string list \<times> TrendingHashtagFetcher
     \<Rightarrow> TrendingHashtagData list \<times> string list \<times> TrendingHashtagFetcher" where
  "try_sources w cat plat [] acc = acc"
| "try_sources w cat plat ((source_name, fetch_method) # rest) (all_hashtags, sources_tried, s) =
     (let (result, s1) = fetch_method w s cat plat
      in try_sources w cat plat rest
           (if tr_success result \<and> tr_hashtags result \<noteq> []
            then all_hashtags @ tr_hashtags result else all_hashtags,
            sources_tried @ [source_name], s1))"

text \<open>\<^verbatim>\<open>",".join(xs)\<close>\<close>

fun join_comma :: "string list \<Rightarrow> string" where
  "join_comma [] = []"
| "join_comma [x] = x"
| "join_comma (x # y # ys) = x @ '','' @ join_comma (y # ys)"

definition get_trending_hashtags ::
  "world \<Rightarrow> TrendingHashtagFetcher \<Rightarrow> string \<Rightarrow> string \<Rightarrow> int
     \<Rightarrow> TrendingResult \<times> TrendingHashtagFetcher" where
  "get_trending_hashtags w s cat plat max_count =
     (let (all_hashtags, sources_tried, s1) = try_sources w cat plat sources ([], [], s) in
      if all_hashtags = []
      then (\<lparr>tr_hashtags = [], tr_source = join_comma sources_tried,
             tr_category = cat, tr_platform = plat, tr_success = False,
             tr_error = Some ''No trending hashtags found from any source''\<rparr>,
            s1)
      else
        (let unique_hashtags = remove_duplicate_hashtags all_hashtags;
             final_hashtags = py_take max_count unique_hashtags
         in (\<lparr>tr_hashtags = final_hashtags, tr_source = join_comma sources_tried,
              tr_category = cat, tr_platform = plat, tr_success = True, tr_error = None\<rparr>,
             s1)))"

section \<open>hashtag\_generator.py\<close>

subsection \<open>Data\<close>

record CategoryResult =
  primary_category :: string
  secondary_categories :: "string list"
  confidence_score :: real
  cr_description :: string
  cr_success :: bool
  cr_error :: "string option"

record HashtagRequest =
  image_path :: string
  category_result :: "CategoryResult option"
  req_platform :: string
  max_hashtags :: int
  include_trending :: bool
  include_niche :: bool
  include_branded :: bool
  brand_name :: "string option"

text \<open>
  The text of \<^verbatim>\<open>error\<close>: a message handed on as it is, or \<^verbatim>\<open>str(e)\<close> of the exception
  caught.
\<close>

datatype error_text = Message string | ExceptionText py_exn

text \<open>
  The lists of the result that come from the analyzer's answer hold what the answer
  held, so they are JSON values.
\<close>

record EnhancedHashtagResult =
  hashtags :: "string list"
  trending_hashtags :: "string list"
  niche_hashtags :: json
  branded_hashtags :: json
  ai_generated_hashtags :: "json list"
  real_trending_hashtags :: "TrendingHashtagData list"
  res_platform :: string
  total_count :: nat
  engagement_potential :: "real option"
  trending_score :: "real option"
  success :: bool
  error :: "error_text option"

subsection \<open>Text helpers\<close>

text \<open>The ASCII characters that \<^verbatim>\<open>str.strip()\<close> removes.\<close>

definition py_whitespace :: "char list" where
  "py_whitespace =
     [CHR 0x09, CHR 0x0A, CHR 0x0B, CHR 0x0C, CHR 0x0D, CHR 0x1C, CHR 0x1D, CHR 0x1E, CHR 0x1F,
      CHR '' '']"

definition strip :: "string \<Rightarrow> string" where
  "strip s =
     rev (dropWhile (\<lambda>c. c \<in> set py_whitespace)
            (rev (dropWhile (\<lambda>c. c \<in> set py_whitespace) s)))"

text \<open>\<^verbatim>\<open>s.replace(old, new)\<close> for a non-empty \<open>old\<close>: left to right, without overlap.\<close>

function py_replace :: "string \<Rightarrow> string \<Rightarrow> string \<Rightarrow> string" where
  "py_replace old new [] = []"
| "py_replace old new (c # cs) =
     (if old \<noteq> [] \<and> startswith (c # cs) old
      then new @ py_replace old new (drop (length old) (c # cs))
      else c # py_replace old new cs)"
  by pat_completeness auto
termination
  by (relation "measure (\<lambda>(old, new, s). length s)") auto

text \<open>\<^verbatim>\<open>re.findall(r'#[A-Za-z0-9_]+', text)\<close>\<close>

definition is_word_char :: "char \<Rightarrow> bool" where
  "is_word_char c = (isalnum c \<or> c = CHR ''_'')"

function findall_hashtags :: "string \<Rightarrow> string list" where
  "findall_hashtags [] = []"
| "findall_hashtags (c # cs) =
     (if c = CHR ''#'' \<and> takeWhile is_word_char cs \<noteq> []
      then (c # takeWhile is_word_char cs) # findall_hashtags (dropWhile is_word_char cs)
      else findall_hashtags cs)"
  by pat_completeness auto
termination
  by (relation "measure length") (auto simp: length_dropWhile_le less_Suc_eq_le)

subsection \<open>Cleaning and parsing\<close>

text \<open>
  \<^verbatim>\<open>_clean_hashtags\<close> over the items of a list of the answer: an item that is not a
  string has no \<^verbatim>\<open>startswith\<close>.
\<close>

definition clean_one :: "string \<Rightarrow> string" where
  "clean_one h =
     filter (\<lambda>c. isalnum c \<or> c = CHR ''#'') (if \<not> startswith h ''#'' then ''#'' @ h else h)"

fun clean_hashtags :: "json list \<Rightarrow> py_exn + string list" where
  "clean_hashtags [] = Inr []"
| "clean_hashtags (x # xs) =
     (case x of
        JStr h \<Rightarrow>
          (case clean_hashtags xs of
             Inl e \<Rightarrow> Inl e
           | Inr cleaned \<Rightarrow>
               Inr (if length (clean_one h) > 2 \<and> length (clean_one h) \<le> 100
                    then clean_one h # cleaned else cleaned))
      | _ \<Rightarrow> Inl AttributeError)"

definition extract_hashtags_from_text :: "string \<Rightarrow> string list" where
  "extract_hashtags_from_text text = seen_loop lower {} (findall_hashtags text)"

text \<open>
  \<^verbatim>\<open>for key in data: if isinstance(data[key], list): data[key] = clean(data[key])\<close>
  when \<open>data\<close> is a dictionary: the entries in order.
\<close>

fun clean_entries :: "(string \<times> json) list \<Rightarrow> py_exn + (string \<times> json) list" where
  "clean_entries [] = Inr []"
| "clean_entries ((k, v) # rest) =
     (case (case v of
              JArr xs \<Rightarrow> (case clean_hashtags xs of
                            Inl e \<Rightarrow> Inl e
                          | Inr cleaned \<Rightarrow> Inr (JArr (map JStr cleaned)))
            | _ \<Rightarrow> Inr v) of
        Inl e \<Rightarrow> Inl e
      | Inr v' \<Rightarrow>
          (case clean_entries rest of
             Inl e \<Rightarrow> Inl e
           | Inr rest' \<Rightarrow> Inr ((k, v') # rest')))"

text \<open>
  The same loop when \<open>data\<close> is a list: the items are the keys, so an item must be an
  index (\<^verbatim>\<open>True\<close> and \<^verbatim>\<open>False\<close> are 1 and 0) within range.
\<close>

definition list_index :: "json \<Rightarrow> nat \<Rightarrow> py_exn + nat" where
  "list_index key n =
     (let idx = (\<lambda>i :: int.
                  if 0 \<le> i \<and> i < int n then Inr (nat i)
                  else if i < 0 \<and> - int n \<le> i then Inr (nat (int n + i))
                  else Inl IndexError)
      in case key of
           JInt i \<Rightarrow> idx i
         | JBool b \<Rightarrow> idx (if b then 1 else 0)
         | _ \<Rightarrow> Inl TypeError)"

fun clean_items :: "nat \<Rightarrow> nat \<Rightarrow> json list \<Rightarrow> py_exn + json list" where
  "clean_items 0 i d = Inr d"
| "clean_items (Suc n) i d =
     (case list_index (d ! i) (length d) of
        Inl e \<Rightarrow> Inl e
      | Inr j \<Rightarrow>
          (case d ! j of
             JArr xs \<Rightarrow>
               (case clean_hashtags xs of
                  Inl e \<Rightarrow> Inl e
                | Inr cleaned \<Rightarrow> clean_items n (Suc i) (d[j := JArr (map JStr cleaned)]))
           | _ \<Rightarrow> clean_items n (Suc i) d))"

definition clean_data :: "json \<Rightarrow> py_exn + json" where
  "clean_data d =
     (case d of
        JObj entries \<Rightarrow>
          (case clean_entries entries of Inl e \<Rightarrow> Inl e | Inr es \<Rightarrow> Inr (JObj es))
      | JArr items \<Rightarrow>
          (case clean_items (length items) 0 items of
             Inl e \<Rightarrow> Inl e
           | Inr items' \<Rightarrow> Inr (JArr items'))
      | JStr s \<Rightarrow> (if s = [] then Inr (JStr s) else Inl TypeError)
      | _ \<Rightarrow> Inl TypeError)"

text \<open>The text handed to \<^verbatim>\<open>json.loads\<close>: stripped, and without a Markdown fence.\<close>

definition strip_markdown :: "string \<Rightarrow> string" where
  "strip_markdown response_text0 =
     (let response_text = strip response_text0
      in if startswith response_text ''```json''
         then strip (py_replace ''```'' [] (py_replace ''```json'' [] response_text))
         else if startswith response_text ''```''
         then strip (py_replace ''```'' [] response_text)
         else response_text)"

definition parse_ai_hashtag_response :: "world \<Rightarrow> string \<Rightarrow> py_exn + json" where
  "parse_ai_hashtag_response w response_text0 =
     (let response_text = strip_markdown response_text0
      in case json_loads w response_text of
           Some d \<Rightarrow> clean_data d
         | None \<Rightarrow>
             (let hashtags = extract_hashtags_from_text response_text in
              Inr (JObj
                [(''trending_hashtags'', JArr (map JStr (py_slice 0 3 hashtags))),
                 (''popular_hashtags'', JArr (map JStr (py_slice 3 8 hashtags))),
                 (''niche_hashtags'', JArr (map JStr (py_slice 8 12 hashtags))),
                 (''branded_hashtags'', JArr (map JStr (py_slice 12 15 hashtags)))])))"

subsection \<open>Combining the sources\<close>

text \<open>\<^verbatim>\<open>d.get(key, default)\<close> on the entries of a dictionary.\<close>

definition dict_get :: "(string \<times> json) list \<Rightarrow> string \<Rightarrow> json \<Rightarrow> json" where
  "dict_get entries k dflt = (case map_of entries k of Some v \<Rightarrow> v | None \<Rightarrow> dflt)"

record combined =
  c_trending :: "string list"
  c_niche :: json
  c_popular :: json
  c_branded :: json

text \<open>
  \<^verbatim>\<open>for hashtag in tags: if hashtag not in popular: popular.append(hashtag)\<close>
  on a list.
\<close>

fun backfill :: "json list \<Rightarrow> string list \<Rightarrow> json list" where
  "backfill popular [] = popular"
| "backfill popular (h # hs) =
     backfill (if JStr h \<notin> set popular then popular @ [JStr h] else popular) hs"

text \<open>
  The supplement of the popular bucket, whatever the answer held under
  \<^verbatim>\<open>"popular_hashtags"\<close>: a string and a dictionary have a length and a membership test
  (substring, key) but no \<^verbatim>\<open>append\<close>; the other values have no length.
\<close>

definition supplement_popular :: "json \<Rightarrow> string list \<Rightarrow> py_exn + json" where
  "supplement_popular popular trending_tags =
     (case popular of
        JArr xs \<Rightarrow>
          Inr (if length xs < 5 then JArr (backfill xs (take 3 trending_tags)) else popular)
      | JStr s \<Rightarrow>
          (if length s < 5 \<and> list_ex (\<lambda>h. \<not> sublist h s) (take 3 trending_tags)
           then Inl AttributeError else Inr popular)
      | JObj entries \<Rightarrow>
          (if length entries < 5
              \<and> list_ex (\<lambda>h. h \<notin> set (map fst entries)) (take 3 trending_tags)
           then Inl AttributeError else Inr popular)
      | _ \<Rightarrow> Inl TypeError)"

text \<open>
  \<^verbatim>\<open>_combine_hashtag_sources\<close> returns the four buckets. The popular bucket is the very
  list of the answer when the answer has the key, so appending to it changes the answer
  too: the second component is the answer's entries afterwards. A value that is not a
  dictionary has no \<^verbatim>\<open>get\<close>.
\<close>

definition combine_hashtag_sources ::
  "json \<Rightarrow> TrendingHashtagData list \<Rightarrow> HashtagRequest
     \<Rightarrow> py_exn + combined \<times> (string \<times> json) list" where
  "combine_hashtag_sources ai_hashtags trending_hashtags_data request =
     (case ai_hashtags of
        JObj entries \<Rightarrow>
          (let trending_tags = map hashtag trending_hashtags_data in
           case supplement_popular (dict_get entries ''popular_hashtags'' (JArr []))
                  trending_tags of
             Inl e \<Rightarrow> Inl e
           | Inr popular \<Rightarrow>
               Inr (\<lparr>c_trending = trending_tags,
                     c_niche = dict_get entries ''niche_hashtags'' (JArr []),
                     c_popular = popular,
                     c_branded = dict_get entries ''branded_hashtags'' (JArr [])\<rparr>,
                    map (\<lambda>(k, v). if k = ''popular_hashtags'' then (k, popular) else (k, v))
                      entries))
      | _ \<Rightarrow> Inl AttributeError)"

subsection \<open>Scores\<close>

definition calculate_engagement_potential ::
  "string list \<Rightarrow> TrendingHashtagData list \<Rightarrow> real" where
  "calculate_engagement_potential tags trending_records =
     (let trending_hashtag_set = set (map (\<lambda>th. lower (hashtag th)) trending_records);
          trending_matches = length (filter (\<lambda>h. lower h \<in> trending_hashtag_set) tags);
          score0 = 5 + of_nat trending_matches * (1 / 2);
          score1 = (if length tags \<ge> 8 then score0 + 1 else score0);
          score2 = (if 10 \<le> length tags \<and> length tags \<le> 15 then score1 + 1 / 2 else score1);
          score3 = (if length tags < 5 then score2 - 1
                    else if length tags > 25 then score2 - 1 / 2 else score2)
      in min 10 (max 1 score3))"

text \<open>\<^verbatim>\<open>th.engagement_score or 500\<close>: a score that is \<^verbatim>\<open>None\<close> or 0 counts as 500.\<close>

definition score_or_500 :: "TrendingHashtagData \<Rightarrow> int" where
  "score_or_500 th =
     (case engagement_score th of None \<Rightarrow> 500 | Some sc \<Rightarrow> if sc \<noteq> 0 then sc else 500)"

definition calculate_trending_score :: "TrendingHashtagData list \<Rightarrow> real" where
  "calculate_trending_score trending_records =
     (if trending_records = [] then 3
      else
        (let engagement_scores = map score_or_500 trending_records;
             avg_engagement =
               real_of_int (sum_list engagement_scores) / real (length engagement_scores)
         in min 10 (max 1 ((avg_engagement / 1000) * 10))))"

subsection \<open>The final list\<close>

text \<open>
  \<^verbatim>\<open>final_hashtags.extend(v[:n])\<close>: the first \<open>n\<close> items of a list, the first \<open>n\<close>
  characters of a string as strings of length one; no other value of the answer can be
  sliced (a dictionary raises \<^verbatim>\<open>TypeError\<close> as well, \<^verbatim>\<open>KeyError\<close> from Python 3.12
  on).
\<close>

definition slice_items :: "json \<Rightarrow> nat \<Rightarrow> py_exn + json list" where
  "slice_items v n =
     (case v of
        JArr xs \<Rightarrow> Inr (take n xs)
      | JStr s \<Rightarrow> Inr (map (\<lambda>c. JStr [c]) (take n s))
      | _ \<Rightarrow> Inl TypeError)"

text \<open>The loop that removes duplicates calls \<^verbatim>\<open>lower()\<close> on every item.\<close>

fun str_items :: "json list \<Rightarrow> py_exn + string list" where
  "str_items [] = Inr []"
| "str_items (x # xs) =
     (case x of
        JStr h \<Rightarrow> (case str_items xs of Inl e \<Rightarrow> Inl e | Inr hs \<Rightarrow> Inr (h # hs))
      | _ \<Rightarrow> Inl AttributeError)"

definition build_final :: "HashtagRequest \<Rightarrow> combined \<Rightarrow> py_exn + string list" where
  "build_final request c =
     (let from_trending =
            (if include_trending request then map JStr (take 5 (c_trending c)) else [])
      in case (if include_niche request then slice_items (c_niche c) 5 else Inr []) of
           Inl e \<Rightarrow> Inl e
         | Inr from_niche \<Rightarrow>
      (case slice_items (c_popular c) 5 of
           Inl e \<Rightarrow> Inl e
         | Inr from_popular \<Rightarrow>
      (case (if include_branded request then slice_items (c_branded c) 3 else Inr []) of
           Inl e \<Rightarrow> Inl e
         | Inr from_branded \<Rightarrow>
      (case str_items (from_trending @ from_niche @ from_popular @ from_branded) of
           Inl e \<Rightarrow> Inl e
         | Inr final_hashtags \<Rightarrow>
             Inr (py_take (max_hashtags request) (seen_loop lower {} final_hashtags))))))"

subsection \<open>generate\_enhanced\_hashtags\<close>

definition get_real_trending_hashtags ::
  "world \<Rightarrow> TrendingHashtagFetcher \<Rightarrow> string \<Rightarrow> string \<Rightarrow> int
     \<Rightarrow> TrendingHashtagData list \<times> TrendingHashtagFetcher" where
  "get_real_trending_hashtags w s cat plat max_count =
     (let (trending_result, s1) = get_trending_hashtags w s cat plat max_count
      in (if tr_success trending_result then tr_hashtags trending_result else [], s1))"

text \<open>
  What stands in the \<^verbatim>\<open>try\<close> after the analyzer has answered with success: the
  result, or the exception raised on the way. \<open>content\<close> is \<^verbatim>\<open>result["content"]\<close>;
  \<^verbatim>\<open>None\<close> has no \<^verbatim>\<open>strip\<close>.
\<close>

definition generate_body ::
  "world \<Rightarrow> HashtagRequest \<Rightarrow> TrendingHashtagData list \<Rightarrow> string option
     \<Rightarrow> py_exn + EnhancedHashtagResult" where
  "generate_body w request real_trending content =
     (case content of
        None \<Rightarrow> Inl AttributeError
      | Some response_text \<Rightarrow>
     (case parse_ai_hashtag_response w response_text of
        Inl e \<Rightarrow> Inl e
      | Inr ai_hashtags \<Rightarrow>
     (case combine_hashtag_sources ai_hashtags real_trending request of
        Inl e \<Rightarrow> Inl e
      | Inr (combined_hashtags, ai_entries) \<Rightarrow>
     (case build_final request combined_hashtags of
        Inl e \<Rightarrow> Inl e
      | Inr final_hashtags \<Rightarrow>
          Inr \<lparr>hashtags = final_hashtags,
               trending_hashtags = c_trending combined_hashtags,
               niche_hashtags = c_niche combined_hashtags,
               branded_hashtags = c_branded combined_hashtags,
               ai_generated_hashtags = map snd ai_entries,
               real_trending_hashtags = real_trending,
               res_platform = req_platform request,
               total_count = length final_hashtags,
               engagement_potential =
                 Some (calculate_engagement_potential final_hashtags real_trending),
               trending_score = Some (calculate_trending_score real_trending),
               success = True,
               error = None\<rparr>))))"

text \<open>
  The first call of \<^verbatim>\<open>analyze_image\<close> yields the description that goes into the prompt
  of the second, and the prompt goes nowhere else; the analyzer's answer to the second
  call is \<open>hashtag_result w\<close>, whatever the prompt was. The fetcher is the only part of
  the generator that changes, so the generator's state is the fetcher.
\<close>

definition request_category :: "HashtagRequest \<Rightarrow> string" where
  "request_category request =
     (case category_result request of
        None \<Rightarrow> ''general''
      | Some cr \<Rightarrow> if primary_category cr \<noteq> [] then primary_category cr else ''general'')"

definition generate_enhanced_hashtags ::
  "world \<Rightarrow> TrendingHashtagFetcher \<Rightarrow> HashtagRequest
     \<Rightarrow> EnhancedHashtagResult \<times> TrendingHashtagFetcher" where
  "generate_enhanced_hashtags w s request =
     (let (real_trending, s1) =
            get_real_trending_hashtags w s (request_category request) (req_platform request) 8;
          result = hashtag_result w
      in if \<not> ai_success result
         then (\<lparr>hashtags = [], trending_hashtags = [], niche_hashtags = JArr [],
                branded_hashtags = JArr [], ai_generated_hashtags = [],
                real_trending_hashtags = real_trending,
                res_platform = req_platform request, total_count = 0,
                engagement_potential = None, trending_score = None, success = False,
                error = Some (Message (case ai_error result of
                                         Some msg \<Rightarrow> msg
                                       | None \<Rightarrow> ''Unknown error occurred''))\<rparr>,
               s1)
         else
           (case generate_body w request real_trending (ai_content result) of
              Inr r \<Rightarrow> (r, s1)
            | Inl e \<Rightarrow>
                (\<lparr>hashtags = [], trending_hashtags = [], niche_hashtags = JArr [],
                  branded_hashtags = JArr [], ai_generated_hashtags = [],
                  real_trending_hashtags = [],
                  res_platform = req_platform request, total_count = 0,
                  engagement_potential = None, trending_score = None, success = False,
                  error = Some (ExceptionText e)\<rparr>,
                 s1)))"

section \<open>Sample inputs\<close>

definition sample_record :: "string \<Rightarrow> int \<Rightarrow> TrendingHashtagData" where
  "sample_record tag sc =
     \<lparr>hashtag = tag, platform = ''instagram'', engagement_score = Some sc,
      growth_rate = None, category = None, last_updated = None\<rparr>"


definition sample_request :: HashtagRequest where
  "sample_request =
     \<lparr>image_path = ''photo.jpg'', category_result = None, req_platform = ''instagram'',
      max_hashtags = 15, include_trending = True, include_niche = True,
      include_branded = False, brand_name = None\<rparr>"

text \<open>
  A world in which every host answers 403 and the analyzer answers with a JSON object;
  \<open>sample_json\<close> is what \<^verbatim>\<open>json.loads\<close> makes of \<open>sample_answer\<close>.
\<close>

definition sample_answer :: string where
  \<open>sample_answer = ''{"niche_hashtags": ["#HomeCooking"], "popular_hashtags": ["Food", "#food", "so tasty!"], "branded_hashtags": ["#acme"]}''\<close>

definition sample_json :: json where
  "sample_json =
     JObj [(''niche_hashtags'', JArr [JStr ''#HomeCooking'']),
           (''popular_hashtags'', JArr [JStr ''Food'', JStr ''#food'', JStr ''so tasty!'']),
           (''branded_hashtags'', JArr [JStr ''#acme''])]"

definition blocked_world :: world where
  "blocked_world =
     \<lparr>bs4_importable = True,
      http_get = (\<lambda>host c. HTTPError 403),
      clock_read = (\<lambda>k. 1000),
      clock_save = (\<lambda>k. 1000),
      strftime = ''2025-01-01 00:00:00'',
      hashtag_result = \<lparr>ai_success = True, ai_content = Some sample_answer, ai_error = None\<rparr>,
      json_loads = (\<lambda>t. if t = sample_answer then Some sample_json else None)\<rparr>"






text \<open>
  A fetcher that has served one call of the Hashtagify provider, at clock 1000, and two
  later worlds: one 1000 seconds later, one a day later.
\<close>

definition warm_fetcher :: TrendingHashtagFetcher where
  "warm_fetcher = snd (fetch_trending_from_hashtagify blocked_world new_fetcher ''food'' ''instagram'')"

definition later_world :: world where
  "later_world = blocked_world\<lparr>clock_read := (\<lambda>k. 2000)\<rparr>"

definition next_day_world :: world where
  "next_day_world = blocked_world\<lparr>clock_read := (\<lambda>k. 90000)\<rparr>"


section \<open>Notions the properties are stated with\<close>





section \<open>Notions for the fetcher's state\<close>

text \<open>The fetcher without the cache entry of a key.\<close>

definition forget :: "TrendingHashtagFetcher \<Rightarrow> string \<Rightarrow> TrendingHashtagFetcher" where
  "forget s k = s\<lparr>cache := (cache s)(k := None)\<rparr>"

text \<open>
  The public calls that change a fetcher, each with the world it runs in, and a run of
  calls one after the other on the same fetcher.
\<close>

datatype call =
  Generate world HashtagRequest
| GetTrending world string string int
| FetchWebScraping world string string
| FetchHashtagify world string string
| FetchRitetag world string string

fun step :: "call \<Rightarrow> TrendingHashtagFetcher \<Rightarrow> TrendingHashtagFetcher" where
  "step (Generate w request) s = snd (generate_enhanced_hashtags w s request)"
| "step (GetTrending w cat plat max_count) s = snd (get_trending_hashtags w s cat plat max_count)"
| "step (FetchWebScraping w cat plat) s = snd (fetch_trending_from_web_scraping w s cat plat)"
| "step (FetchHashtagify w cat plat) s = snd (fetch_trending_from_hashtagify w s cat plat)"
| "step (FetchRitetag w cat plat) s = snd (fetch_trending_from_ritetag w s cat plat)"

definition run :: "call list \<Rightarrow> TrendingHashtagFetcher \<Rightarrow> TrendingHashtagFetcher" where
  "run calls s = fold step calls s"

text \<open>What a host answers during a call.\<close>

fun answer :: "call \<Rightarrow> string \<Rightarrow> http_outcome" where
  "answer (Generate w request) host = http_get w host (lower (request_category request))"
| "answer (GetTrending w cat plat max_count) host = http_get w host (lower cat)"
| "answer (FetchWebScraping w cat plat) host = http_get w host (lower cat)"
| "answer (FetchHashtagify w cat plat) host = http_get w host (lower cat)"
| "answer (FetchRitetag w cat plat) host = http_get w host (lower cat)"




text \<open>No cache entry of the category and platform holds an empty list.\<close>

definition no_empty_entry :: "TrendingHashtagFetcher \<Rightarrow> string \<Rightarrow> string \<Rightarrow> bool" where
  "no_empty_entry s cat plat =
     list_all (\<lambda>provider.
                 case cache s (provider @ ''_'' @ cat @ ''_'' @ plat) of
                   None \<Rightarrow> True
                 | Some e \<Rightarrow> cd_hashtags (data e) \<noteq> [])
       [''webscrape'', ''hashtagify'', ''ritetag'']"

text \<open>
  What an operation in world \<open>w\<close> for category \<open>cat\<close> may do to the blocklist and to
  the trace of requests on the way from \<open>s\<close> to \<open>s'\<close>: no host leaves the blocklist,
  the requests issued go to hosts that were not blocked, and a host that answered one of
  them with 403 is blocked afterwards.
\<close>

definition polite ::
  "world \<Rightarrow> string \<Rightarrow> TrendingHashtagFetcher \<Rightarrow> TrendingHashtagFetcher \<Rightarrow> bool" where
  "polite w cat s s' =
     (blocked_sources s \<subseteq> blocked_sources s'
      \<and> (\<exists>new. requests s' = requests s @ new
                 \<and> set new \<inter> blocked_sources s = {}
                 \<and> (\<forall>h \<in> set new. http_get w h (lower cat) = HTTPError 403
                                   \<longrightarrow> h \<in> blocked_sources s')))"

text \<open>
  No cache entry of a category of the curated table and a platform the table has holds
  an empty list.
\<close>

definition table_floor :: "TrendingHashtagFetcher \<Rightarrow> bool" where
  "table_floor s =
     (\<forall>cat plat. cat \<in> set (map fst trending_data) \<and> (plat = ''instagram'' \<or> plat = ''facebook'')
                 \<longrightarrow> no_empty_entry s cat plat)"

section \<open>Sample calls\<close>

text \<open>Two calls: the first meets the 403 answers, the second comes a day later.\<close>

definition first_call :: call where
  "first_call = Generate blocked_world sample_request"

definition second_call :: call where
  "second_call = GetTrending next_day_world ''general'' ''instagram'' 8"

section \<open>The loop that keeps first occurrences\<close>


lemma seen_loop_keys: "key ` set (seen_loop key seen xs) = key ` set xs - seen"
  by (induction xs arbitrary: seen) auto




lemma seen_loop_length: "length (seen_loop key seen xs) \<le> length xs"
  by (induction xs arbitrary: seen) (auto simp: le_SucI)





lemma py_take_Nil: "py_take n [] = []"
  by (simp add: py_take_def)






section \<open>Cleaning, slicing and the final list\<close>










section \<open>The supplement of the popular bucket\<close>

lemma backfill_added:
  "\<exists>added. backfill xs ts = xs @ map JStr added \<and> distinct added
      \<and> set added = set ts - {t. JStr t \<in> set xs} \<and> subseq added ts"
proof (induction ts arbitrary: xs)
  case Nil
  show ?case by simp
next
  case (Cons h hs)
  show ?case
  proof (cases "JStr h \<in> set xs")
    case True
    from Cons.IH [of xs] obtain added where
      a: "backfill xs hs = xs @ map JStr added" "distinct added"
         "set added = set hs - {t. JStr t \<in> set xs}" "subseq added hs"
      by blast
    from True a have "set added = set (h # hs) - {t. JStr t \<in> set xs}" by auto
    with True a show ?thesis by auto
  next
    case False
    from Cons.IH [of "xs @ [JStr h]"] obtain added where
      a: "backfill (xs @ [JStr h]) hs = (xs @ [JStr h]) @ map JStr added" "distinct added"
         "set added = set hs - {t. JStr t \<in> set (xs @ [JStr h])}" "subseq added hs"
      by blast
    let ?added = "h # added"
    from False a have "backfill xs (h # hs) = xs @ map JStr ?added" by simp
    moreover from a have "distinct ?added" by auto
    moreover from False a have "set ?added = set (h # hs) - {t. JStr t \<in> set xs}" by auto
    moreover from a have "subseq ?added (h # hs)" by simp
    ultimately show ?thesis by blast
  qed
qed

lemma combine_popular_list:
  assumes "dict_get entries ''popular_hashtags'' (JArr []) = JArr xs"
  shows "combine_hashtag_sources (JObj entries) trending request
         = Inr (\<lparr>c_trending = map hashtag trending,
                 c_niche = dict_get entries ''niche_hashtags'' (JArr []),
                 c_popular = JArr (if length xs < 5
                                   then backfill xs (take 3 (map hashtag trending)) else xs),
                 c_branded = dict_get entries ''branded_hashtags'' (JArr [])\<rparr>,
                map (\<lambda>(k, v). if k = ''popular_hashtags''
                               then (k, JArr (if length xs < 5
                                              then backfill xs (take 3 (map hashtag trending))
                                              else xs))
                               else (k, v)) entries)"
  using assms by (simp add: combine_hashtag_sources_def supplement_popular_def Let_def)

text \<open>
  C7, as amended. When the popular bucket of the answer is a list of fewer than 5 entries,
  the merge appends to it those of the first 3 trending tags that it does not hold yet,
  each once and in their order; a list of 5 or more entries is left as it is. The
  trending bucket holds every trending tag, the appended ones too.
\<close>

theorem popular_backfill:
  assumes "dict_get entries ''popular_hashtags'' (JArr []) = JArr xs"
  shows "\<exists>c es added.
           combine_hashtag_sources (JObj entries) trending request = Inr (c, es)
           \<and> c_trending c = map hashtag trending
           \<and> c_popular c = JArr (xs @ map JStr added)
           \<and> (if length xs < 5
               then subseq added (take 3 (map hashtag trending)) \<and> distinct added \<and> length added \<le> 3
                    \<and> set added = set (take 3 (map hashtag trending)) - {t. JStr t \<in> set xs}
               else added = [])"
proof (cases "length xs < 5")
  case True
  from backfill_added [of xs "take 3 (map hashtag trending)"] obtain added where
    a: "backfill xs (take 3 (map hashtag trending)) = xs @ map JStr added" "distinct added"
       "set added = set (take 3 (map hashtag trending)) - {t. JStr t \<in> set xs}"
       "subseq added (take 3 (map hashtag trending))"
    by blast
  from a(4) have "length added \<le> length (take 3 (map hashtag trending))"
    by (rule list_emb_length)
  then have "length added \<le> 3" by simp
  with True a show ?thesis
    unfolding combine_popular_list [OF assms]
    by - (rule exI, rule exI, rule exI [of _ added], rule conjI, rule refl, simp)
next
  case False
  then show ?thesis
    unfolding combine_popular_list [OF assms]
    by - (rule exI, rule exI, rule exI [of _ "[]"], rule conjI, rule refl, simp)
qed

theorem popular_backfill_witness:
  "dict_get [(''popular_hashtags'', JArr [JStr ''#a''])] ''popular_hashtags'' (JArr [])
     = JArr [JStr ''#a'']
   \<and> (\<exists>c es. combine_hashtag_sources (JObj [(''popular_hashtags'', JArr [JStr ''#a''])])
                [sample_record ''#a'' 900, sample_record ''#t'' 800] sample_request
              = Inr (c, es)
            \<and> c_trending c = [''#a'', ''#t'']
            \<and> c_popular c = JArr [JStr ''#a'', JStr ''#t''])"
proof -
  have h: "dict_get [(''popular_hashtags'', JArr [JStr ''#a''])] ''popular_hashtags'' (JArr [])
             = JArr [JStr ''#a'']"
    by (simp add: dict_get_def)
  from popular_backfill [OF h, of "[sample_record ''#a'' 900, sample_record ''#t'' 800]"
         sample_request]
  obtain c es where
    r: "combine_hashtag_sources (JObj [(''popular_hashtags'', JArr [JStr ''#a''])])
          [sample_record ''#a'' 900, sample_record ''#t'' 800] sample_request = Inr (c, es)"
    by blast
  have "combine_hashtag_sources (JObj [(''popular_hashtags'', JArr [JStr ''#a''])])
          [sample_record ''#a'' 900, sample_record ''#t'' 800] sample_request
        = Inr (\<lparr>c_trending = [''#a'', ''#t''], c_niche = JArr [],
                c_popular = JArr [JStr ''#a'', JStr ''#t''], c_branded = JArr []\<rparr>,
               [(''popular_hashtags'', JArr [JStr ''#a'', JStr ''#t''])])"
    by (simp add: combine_hashtag_sources_def supplement_popular_def dict_get_def
          sample_record_def)
  with r h show ?thesis by auto
qed

text \<open>
  C7 as stated fails: with an empty popular bucket the trending tag \<open>#t\<close> ends in the
  trending bucket and in the popular bucket.
\<close>

theorem popular_backfill_counterexample:
  "combine_hashtag_sources (JObj [(''popular_hashtags'', JArr [])]) [sample_record ''#t'' 900]
     sample_request
   = Inr (\<lparr>c_trending = [''#t''], c_niche = JArr [], c_popular = JArr [JStr ''#t''],
           c_branded = JArr []\<rparr>,
          [(''popular_hashtags'', JArr [JStr ''#t''])])"
  by (simp add: combine_hashtag_sources_def supplement_popular_def dict_get_def
        sample_record_def)

section \<open>The aggregator's duplicates, order and count\<close>


lemma sorted_reverse_set: "set (sorted_reverse hs) = set hs"
  by (simp add: sorted_reverse_def)



lemma remove_duplicate_hashtags_Nil: "remove_duplicate_hashtags [] = []"
  by (simp add: remove_duplicate_hashtags_def sorted_reverse_def)


lemma remove_duplicate_hashtags_empty_iff: "remove_duplicate_hashtags hs = [] \<longleftrightarrow> hs = []"
proof
  assume e: "remove_duplicate_hashtags hs = []"
  have "(\<lambda>h. lower (hashtag h)) ` set (remove_duplicate_hashtags hs)
        = (\<lambda>h. lower (hashtag h)) ` set hs"
    by (simp add: remove_duplicate_hashtags_def seen_loop_keys sorted_reverse_set)
  with e show "hs = []" by simp
next
  assume "hs = []"
  then show "remove_duplicate_hashtags hs = []" by (simp add: remove_duplicate_hashtags_Nil)
qed

text \<open>What \<^verbatim>\<open>get_trending_hashtags\<close> returns is a slice of the pool without duplicates.\<close>

lemma get_trending_hashtags_hashtags:
  "tr_hashtags (fst (get_trending_hashtags w s cat plat max_count))
   = py_take max_count
       (remove_duplicate_hashtags (fst (try_sources w cat plat sources ([], [], s))))"
  by (simp add: get_trending_hashtags_def Let_def split_beta
        remove_duplicate_hashtags_Nil py_take_Nil)



section \<open>generate\_enhanced\_hashtags: its cases\<close>


lemma generate_snd:
  "snd (generate_enhanced_hashtags w s request)
   = snd (get_trending_hashtags w s (request_category request) (req_platform request) 8)"
  by (simp add: generate_enhanced_hashtags_def get_real_trending_hashtags_def split_beta Let_def
           split: sum.splits)
















section \<open>The sample worlds, evaluated\<close>






section \<open>The final list\<close>





section \<open>Which tags are normalized\<close>





section \<open>Exceptions\<close>




section \<open>When the result is failed\<close>





section \<open>The cache\<close>

lemma get_from_cache_eq:
  "get_from_cache s now k =
     (case cache s k of
        None \<Rightarrow> None
      | Some e \<Rightarrow> if now - timestamp e < 3600 then Some (data e) else None)"
  by (simp add: get_from_cache_def is_cache_valid_def cache_duration_def split: option.splits)

lemma get_from_cache_forget: "get_from_cache (forget s k) now k = None"
  by (simp add: get_from_cache_eq forget_def)

lemma save_forget: "save_to_cache (forget s k) now k d = save_to_cache s now k d"
  by (simp add: save_to_cache_def forget_def)

lemma scrape_instagram_cache:
  "scrape_instagram_trends w (s\<lparr>cache := c\<rparr>) cat
   = (fst (scrape_instagram_trends w s cat), (snd (scrape_instagram_trends w s cat))\<lparr>cache := c\<rparr>)"
  by (simp add: scrape_instagram_trends_def Let_def split: http_outcome.splits)

lemma scrape_site_cache:
  "scrape_site w (s\<lparr>cache := c\<rparr>) host limit score0 growth0 cat plat
   = (fst (scrape_site w s host limit score0 growth0 cat plat),
      (snd (scrape_site w s host limit score0 growth0 cat plat))\<lparr>cache := c\<rparr>)"
  by (simp add: scrape_site_def Let_def split: http_outcome.splits)

lemma scrape_site_blocked_cache [simp]:
  "blocked_sources (snd (scrape_site w (s\<lparr>cache := c\<rparr>) host limit score0 growth0 cat plat))
   = blocked_sources (snd (scrape_site w s host limit score0 growth0 cat plat))"
  by (simp add: scrape_site_cache)

lemma scrape_trend_websites_cache:
  "scrape_trend_websites w (s\<lparr>cache := c\<rparr>) cat plat
   = (fst (scrape_trend_websites w s cat plat),
      (snd (scrape_trend_websites w s cat plat))\<lparr>cache := c\<rparr>)"
  by (simp add: scrape_trend_websites_def Let_def split_beta scrape_site_cache)

lemma scrape_sources_cache:
  "scrape_sources w (s\<lparr>cache := c\<rparr>) cat plat
   = (fst (scrape_sources w s cat plat), (snd (scrape_sources w s cat plat))\<lparr>cache := c\<rparr>)"
  by (simp add: scrape_sources_def Let_def split_beta scrape_instagram_cache
        scrape_trend_websites_cache split: sum.splits prod.splits)

lemma scrape_instagram_keeps_cache: "cache (snd (scrape_instagram_trends w s cat)) = cache s"
  by (simp add: scrape_instagram_trends_def Let_def split: http_outcome.splits)

lemma scrape_site_keeps_cache:
  "cache (snd (scrape_site w s host limit score0 growth0 cat plat)) = cache s"
  by (simp add: scrape_site_def Let_def split: http_outcome.splits)

lemma scrape_trend_websites_keeps_cache:
  "cache (snd (scrape_trend_websites w s cat plat)) = cache s"
  by (simp add: scrape_trend_websites_def Let_def split_beta scrape_site_keeps_cache)

lemma scrape_sources_keeps_cache: "cache (snd (scrape_sources w s cat plat)) = cache s"
  by (simp add: scrape_sources_def Let_def split_beta scrape_instagram_keeps_cache
        scrape_trend_websites_keeps_cache split: sum.splits prod.splits)

lemma hashtagify_hit:
  assumes "cache s (''hashtagify_'' @ cat @ ''_'' @ plat) = Some e"
    and "clock_read w (''hashtagify_'' @ cat @ ''_'' @ plat) - timestamp e < 3600"
  shows "fetch_trending_from_hashtagify w s cat plat
         = (\<lparr>tr_hashtags = cd_hashtags (data e), tr_source = ''hashtagify_cache'',
             tr_category = cat, tr_platform = plat, tr_success = True, tr_error = None\<rparr>, s)"
  using assms by (simp add: fetch_trending_from_hashtagify_def get_from_cache_eq)

lemma hashtagify_stale:
  assumes "cache s (''hashtagify_'' @ cat @ ''_'' @ plat) = Some e"
    and "\<not> clock_read w (''hashtagify_'' @ cat @ ''_'' @ plat) - timestamp e < 3600"
  shows "fetch_trending_from_hashtagify w s cat plat
         = fetch_trending_from_hashtagify w (forget s (''hashtagify_'' @ cat @ ''_'' @ plat)) cat plat"
proof -
  let ?k = "''hashtagify_'' @ cat @ ''_'' @ plat"
  have miss: "get_from_cache s (clock_read w ?k) ?k = None"
    using assms by (simp add: get_from_cache_eq)
  show ?thesis
    unfolding fetch_trending_from_hashtagify_def Let_def
    by (simp only: miss get_from_cache_forget save_forget option.case)
qed

lemma ritetag_hit:
  assumes "cache s (''ritetag_'' @ cat @ ''_'' @ plat) = Some e"
    and "clock_read w (''ritetag_'' @ cat @ ''_'' @ plat) - timestamp e < 3600"
  shows "fetch_trending_from_ritetag w s cat plat
         = (\<lparr>tr_hashtags = cd_hashtags (data e), tr_source = ''ritetag_cache'',
             tr_category = cat, tr_platform = plat, tr_success = True, tr_error = None\<rparr>, s)"
  using assms by (simp add: fetch_trending_from_ritetag_def get_from_cache_eq)

lemma ritetag_stale:
  assumes "cache s (''ritetag_'' @ cat @ ''_'' @ plat) = Some e"
    and "\<not> clock_read w (''ritetag_'' @ cat @ ''_'' @ plat) - timestamp e < 3600"
  shows "fetch_trending_from_ritetag w s cat plat
         = fetch_trending_from_ritetag w (forget s (''ritetag_'' @ cat @ ''_'' @ plat)) cat plat"
proof -
  let ?k = "''ritetag_'' @ cat @ ''_'' @ plat"
  have miss: "get_from_cache s (clock_read w ?k) ?k = None"
    using assms by (simp add: get_from_cache_eq)
  show ?thesis
    unfolding fetch_trending_from_ritetag_def Let_def
    by (simp only: miss get_from_cache_forget save_forget option.case)
qed

lemma web_scraping_hit:
  assumes "cache s (''webscrape_'' @ cat @ ''_'' @ plat) = Some e"
    and "clock_read w (''webscrape_'' @ cat @ ''_'' @ plat) - timestamp e < 3600"
  shows "fetch_trending_from_web_scraping w s cat plat
         = (\<lparr>tr_hashtags = cd_hashtags (data e), tr_source = ''webscrape_cache'',
             tr_category = cat, tr_platform = plat, tr_success = True, tr_error = None\<rparr>, s)"
  using assms by (simp add: fetch_trending_from_web_scraping_def get_from_cache_eq)

lemma save_after_forget:
  "cache s1 = cache s \<Longrightarrow>
   save_to_cache (s1\<lparr>cache := (cache s)(k := None)\<rparr>) now k d = save_to_cache s1 now k d"
  by (simp add: save_to_cache_def)

lemma web_scraping_stale:
  assumes "cache s (''webscrape_'' @ cat @ ''_'' @ plat) = Some e"
    and "\<not> clock_read w (''webscrape_'' @ cat @ ''_'' @ plat) - timestamp e < 3600"
  shows "fetch_trending_from_web_scraping w s cat plat
         = fetch_trending_from_web_scraping w (forget s (''webscrape_'' @ cat @ ''_'' @ plat)) cat plat"
proof -
  let ?k = "''webscrape_'' @ cat @ ''_'' @ plat"
  have miss: "get_from_cache s (clock_read w ?k) ?k = None"
    using assms by (simp add: get_from_cache_eq)
  have frame: "scrape_sources w (forget s ?k) cat plat
               = (fst (scrape_sources w s cat plat),
                  (snd (scrape_sources w s cat plat))\<lparr>cache := (cache s)(?k := None)\<rparr>)"
    unfolding forget_def by (rule scrape_sources_cache)
  show ?thesis
    unfolding fetch_trending_from_web_scraping_def Let_def
    by (simp only: miss get_from_cache_forget frame option.case split_beta fst_conv snd_conv
          save_after_forget [OF scrape_sources_keeps_cache])
qed

text \<open>
  C4. A cache read returns the entry's data when the entry exists and its age is below
  3600 seconds, and nothing otherwise; it changes nothing. For each of the three
  providers: when the entry of its key exists and its age is below 3600 seconds, the
  provider returns the cached list with source \<^verbatim>\<open><provider>_cache\<close> and leaves the
  fetcher as it is, the trace of network requests included; when the age is not below
  3600 seconds, the provider does what it does on the fetcher without that entry.
\<close>

theorem cache_hit_within_ttl:
  "(cache s k = Some e \<longrightarrow>
      get_from_cache s now k = (if now - timestamp e < 3600 then Some (data e) else None))
   \<and> (cache s k = None \<longrightarrow> get_from_cache s now k = None)
   \<and> (cache s (''hashtagify_'' @ cat @ ''_'' @ plat) = Some e1 \<longrightarrow>
        (if clock_read w (''hashtagify_'' @ cat @ ''_'' @ plat) - timestamp e1 < 3600
         then fetch_trending_from_hashtagify w s cat plat
              = (\<lparr>tr_hashtags = cd_hashtags (data e1), tr_source = ''hashtagify_cache'',
                  tr_category = cat, tr_platform = plat, tr_success = True,
                  tr_error = None\<rparr>, s)
         else fetch_trending_from_hashtagify w s cat plat
              = fetch_trending_from_hashtagify w
                  (forget s (''hashtagify_'' @ cat @ ''_'' @ plat)) cat plat))
   \<and> (cache s (''ritetag_'' @ cat @ ''_'' @ plat) = Some e2 \<longrightarrow>
        (if clock_read w (''ritetag_'' @ cat @ ''_'' @ plat) - timestamp e2 < 3600
         then fetch_trending_from_ritetag w s cat plat
              = (\<lparr>tr_hashtags = cd_hashtags (data e2), tr_source = ''ritetag_cache'',
                  tr_category = cat, tr_platform = plat, tr_success = True,
                  tr_error = None\<rparr>, s)
         else fetch_trending_from_ritetag w s cat plat
              = fetch_trending_from_ritetag w
                  (forget s (''ritetag_'' @ cat @ ''_'' @ plat)) cat plat))
   \<and> (cache s (''webscrape_'' @ cat @ ''_'' @ plat) = Some e3 \<longrightarrow>
        (if clock_read w (''webscrape_'' @ cat @ ''_'' @ plat) - timestamp e3 < 3600
         then fetch_trending_from_web_scraping w s cat plat
              = (\<lparr>tr_hashtags = cd_hashtags (data e3), tr_source = ''webscrape_cache'',
                  tr_category = cat, tr_platform = plat, tr_success = True,
                  tr_error = None\<rparr>, s)
         else fetch_trending_from_web_scraping w s cat plat
              = fetch_trending_from_web_scraping w
                  (forget s (''webscrape_'' @ cat @ ''_'' @ plat)) cat plat))"
proof (intro conjI impI)
  show "get_from_cache s now k = (if now - timestamp e < 3600 then Some (data e) else None)"
    if "cache s k = Some e"
    using that by (simp add: get_from_cache_eq)
  show "get_from_cache s now k = None" if "cache s k = None"
    using that by (simp add: get_from_cache_eq)
  show "if clock_read w (''hashtagify_'' @ cat @ ''_'' @ plat) - timestamp e1 < 3600
        then fetch_trending_from_hashtagify w s cat plat
             = (\<lparr>tr_hashtags = cd_hashtags (data e1), tr_source = ''hashtagify_cache'',
                 tr_category = cat, tr_platform = plat, tr_success = True,
                 tr_error = None\<rparr>, s)
        else fetch_trending_from_hashtagify w s cat plat
             = fetch_trending_from_hashtagify w
                 (forget s (''hashtagify_'' @ cat @ ''_'' @ plat)) cat plat"
    if "cache s (''hashtagify_'' @ cat @ ''_'' @ plat) = Some e1"
  proof (cases "clock_read w (''hashtagify_'' @ cat @ ''_'' @ plat) - timestamp e1 < 3600")
    case True
    from hashtagify_hit [OF that True] True show ?thesis by (simp only: if_True)
  next
    case False
    from hashtagify_stale [OF that False] False show ?thesis by (simp only: if_False)
  qed
  show "if clock_read w (''ritetag_'' @ cat @ ''_'' @ plat) - timestamp e2 < 3600
        then fetch_trending_from_ritetag w s cat plat
             = (\<lparr>tr_hashtags = cd_hashtags (data e2), tr_source = ''ritetag_cache'',
                 tr_category = cat, tr_platform = plat, tr_success = True,
                 tr_error = None\<rparr>, s)
        else fetch_trending_from_ritetag w s cat plat
             = fetch_trending_from_ritetag w
                 (forget s (''ritetag_'' @ cat @ ''_'' @ plat)) cat plat"
    if "cache s (''ritetag_'' @ cat @ ''_'' @ plat) = Some e2"
  proof (cases "clock_read w (''ritetag_'' @ cat @ ''_'' @ plat) - timestamp e2 < 3600")
    case True
    from ritetag_hit [OF that True] True show ?thesis by (simp only: if_True)
  next
    case False
    from ritetag_stale [OF that False] False show ?thesis by (simp only: if_False)
  qed
  show "if clock_read w (''webscrape_'' @ cat @ ''_'' @ plat) - timestamp e3 < 3600
        then fetch_trending_from_web_scraping w s cat plat
             = (\<lparr>tr_hashtags = cd_hashtags (data e3), tr_source = ''webscrape_cache'',
                 tr_category = cat, tr_platform = plat, tr_success = True,
                 tr_error = None\<rparr>, s)
        else fetch_trending_from_web_scraping w s cat plat
             = fetch_trending_from_web_scraping w
                 (forget s (''webscrape_'' @ cat @ ''_'' @ plat)) cat plat"
    if "cache s (''webscrape_'' @ cat @ ''_'' @ plat) = Some e3"
  proof (cases "clock_read w (''webscrape_'' @ cat @ ''_'' @ plat) - timestamp e3 < 3600")
    case True
    from web_scraping_hit [OF that True] True show ?thesis by (simp only: if_True)
  next
    case False
    from web_scraping_stale [OF that False] False show ?thesis by (simp only: if_False)
  qed
qed

lemma warm_entry:
  "cache warm_fetcher ''hashtagify_food_instagram''
   = Some \<lparr>data = \<lparr>cd_hashtags = get_simulated_trending_data blocked_world ''food'' ''instagram''
                                    ''general'',
                     cd_category = ''food'', cd_platform = ''instagram''\<rparr>,
           timestamp = 1000\<rparr>"
  by (simp add: warm_fetcher_def fetch_trending_from_hashtagify_def get_from_cache_eq
        new_fetcher_def save_to_cache_def blocked_world_def Let_def)

theorem cache_hit_within_ttl_witness:
  "cache warm_fetcher ''hashtagify_food_instagram''
   = Some \<lparr>data = \<lparr>cd_hashtags = get_simulated_trending_data blocked_world ''food'' ''instagram''
                                    ''general'',
                     cd_category = ''food'', cd_platform = ''instagram''\<rparr>,
           timestamp = 1000\<rparr>
   \<and> clock_read later_world ''hashtagify_food_instagram'' - 1000 < (3600 :: real)
   \<and> fetch_trending_from_hashtagify later_world warm_fetcher ''food'' ''instagram''
       = (\<lparr>tr_hashtags = get_simulated_trending_data blocked_world ''food'' ''instagram''
                             ''general'',
           tr_source = ''hashtagify_cache'', tr_category = ''food'',
           tr_platform = ''instagram'', tr_success = True, tr_error = None\<rparr>,
          warm_fetcher)
   \<and> \<not> clock_read next_day_world ''hashtagify_food_instagram'' - 1000 < (3600 :: real)
   \<and> fetch_trending_from_hashtagify next_day_world warm_fetcher ''food'' ''instagram''
       = fetch_trending_from_hashtagify next_day_world
           (forget warm_fetcher ''hashtagify_food_instagram'') ''food'' ''instagram''
   \<and> tr_source (fst (fetch_trending_from_hashtagify next_day_world warm_fetcher ''food''
                         ''instagram'')) = ''hashtagify_simulated''"
proof -
  have c1: "clock_read later_world ''hashtagify_food_instagram'' - 1000 < (3600 :: real)"
    by (simp add: later_world_def)
  have c2: "\<not> clock_read next_day_world ''hashtagify_food_instagram'' - 1000 < (3600 :: real)"
    by (simp add: next_day_world_def)
  from cache_hit_within_ttl [of warm_fetcher _ _ _ "''food''" "''instagram''" _ later_world] warm_entry c1
  have hit: "fetch_trending_from_hashtagify later_world warm_fetcher ''food'' ''instagram''
       = (\<lparr>tr_hashtags = get_simulated_trending_data blocked_world ''food'' ''instagram''
                             ''general'',
           tr_source = ''hashtagify_cache'', tr_category = ''food'',
           tr_platform = ''instagram'', tr_success = True, tr_error = None\<rparr>,
          warm_fetcher)"
    by simp
  from cache_hit_within_ttl [of warm_fetcher _ _ _ "''food''" "''instagram''" _ next_day_world] warm_entry c2
  have miss: "fetch_trending_from_hashtagify next_day_world warm_fetcher ''food'' ''instagram''
       = fetch_trending_from_hashtagify next_day_world
           (forget warm_fetcher ''hashtagify_food_instagram'') ''food'' ''instagram''"
    by simp
  have src: "tr_source (fst (fetch_trending_from_hashtagify next_day_world
                    (forget warm_fetcher ''hashtagify_food_instagram'') ''food'' ''instagram''))
             = ''hashtagify_simulated''"
    by (simp add: fetch_trending_from_hashtagify_def get_from_cache_eq forget_def Let_def)
  from warm_entry c1 hit c2 miss src show ?thesis by simp
qed

section \<open>The blocklist\<close>

lemma polite_refl: "polite w cat s s"
  by (simp add: polite_def)

lemma polite_trans:
  assumes "polite w cat s s1" and "polite w cat s1 s2"
  shows "polite w cat s s2"
proof -
  from assms(1) obtain n1 where
    1: "blocked_sources s \<subseteq> blocked_sources s1" "requests s1 = requests s @ n1"
       "set n1 \<inter> blocked_sources s = {}"
       "\<forall>h \<in> set n1. http_get w h (lower cat) = HTTPError 403 \<longrightarrow> h \<in> blocked_sources s1"
    by (auto simp: polite_def)
  from assms(2) obtain n2 where
    2: "blocked_sources s1 \<subseteq> blocked_sources s2" "requests s2 = requests s1 @ n2"
       "set n2 \<inter> blocked_sources s1 = {}"
       "\<forall>h \<in> set n2. http_get w h (lower cat) = HTTPError 403 \<longrightarrow> h \<in> blocked_sources s2"
    by (auto simp: polite_def)
  have "requests s2 = requests s @ (n1 @ n2)" using 1 2 by simp
  moreover have "set (n1 @ n2) \<inter> blocked_sources s = {}" using 1 2 by auto
  moreover have "\<forall>h \<in> set (n1 @ n2). http_get w h (lower cat) = HTTPError 403
                   \<longrightarrow> h \<in> blocked_sources s2"
    using 1 2 by auto
  moreover have "blocked_sources s \<subseteq> blocked_sources s2" using 1 2 by auto
  ultimately show ?thesis unfolding polite_def by blast
qed

lemma polite_cache: "polite w cat s (s\<lparr>cache := c\<rparr>)"
  by (simp add: polite_def)

lemma polite_save: "polite w cat s s1 \<Longrightarrow> polite w cat s (save_to_cache s1 now k d)"
  by (simp add: polite_def save_to_cache_def)

lemma scrape_instagram_polite: "polite w cat s (snd (scrape_instagram_trends w s cat))"
  by (auto simp: polite_def scrape_instagram_trends_def Let_def split: http_outcome.splits)

lemma scrape_site_polite:
  "host \<notin> blocked_sources s \<Longrightarrow>
   polite w cat s (snd (scrape_site w s host limit score0 growth0 cat plat))"
  by (auto simp: polite_def scrape_site_def Let_def split: http_outcome.splits)

lemma scrape_trend_websites_polite:
  "polite w cat s (snd (scrape_trend_websites w s cat plat))"
proof (cases "bs4_importable w")
  case False
  then show ?thesis by (simp add: scrape_trend_websites_def polite_refl)
next
  case True
  define r1 where "r1 = (if ''all-hashtag.com'' \<notin> blocked_sources s
                then scrape_site w s ''all-hashtag.com'' 15 900 (12 / 100) cat plat
                else ([], s))"
  define r2 where "r2 = (if length (fst r1) < 5 \<and> ''hashtagsforlikes.co'' \<notin> blocked_sources (snd r1)
                then scrape_site w (snd r1) ''hashtagsforlikes.co'' 10 800 (10 / 100) cat plat
                else ([], snd r1))"
  have p1: "polite w cat s (snd r1)"
    by (simp add: r1_def scrape_site_polite polite_refl)
  have p2: "polite w cat (snd r1) (snd r2)"
    by (simp add: r2_def scrape_site_polite polite_refl)
  have "snd (scrape_trend_websites w s cat plat) = snd r2"
    using True by (simp add: scrape_trend_websites_def Let_def split_beta r1_def r2_def)
  with polite_trans [OF p1 p2] show ?thesis by simp
qed

lemma scrape_sources_polite: "polite w cat s (snd (scrape_sources w s cat plat))"
proof -
  define r1 where "r1 = (if plat = ''instagram'' then scrape_instagram_trends w s cat
                         else (Inr [], s))"
  have p1: "polite w cat s (snd r1)"
    by (simp add: r1_def scrape_instagram_polite polite_refl)
  have "snd (scrape_sources w s cat plat)
        = (case fst r1 of Inl e \<Rightarrow> snd r1
           | Inr hs \<Rightarrow> snd (scrape_trend_websites w (snd r1) cat plat))"
    by (simp add: scrape_sources_def Let_def split_beta r1_def split: sum.splits prod.splits)
  then show ?thesis
    using p1 polite_trans [OF p1 scrape_trend_websites_polite [of w cat "snd r1" plat]]
    by (simp split: sum.splits)
qed

lemma web_scraping_polite:
  "polite w cat s (snd (fetch_trending_from_web_scraping w s cat plat))"
  by (simp add: fetch_trending_from_web_scraping_def Let_def split_beta polite_refl
        polite_save scrape_sources_polite split: option.splits)

lemma hashtagify_polite:
  "polite w cat s (snd (fetch_trending_from_hashtagify w s cat plat))"
  by (simp add: fetch_trending_from_hashtagify_def Let_def polite_refl polite_save
        split: option.splits)

lemma ritetag_polite:
  "polite w cat s (snd (fetch_trending_from_ritetag w s cat plat))"
  by (simp add: fetch_trending_from_ritetag_def Let_def polite_refl polite_save
        split: option.splits)

lemma try_sources_snd:
  "snd (snd (try_sources w cat plat sources (a, t, s)))
   = snd (fetch_trending_from_ritetag w
            (snd (fetch_trending_from_hashtagify w
                    (snd (fetch_trending_from_web_scraping w s cat plat)) cat plat)) cat plat)"
  by (simp add: sources_def split_beta Let_def)

lemma get_trending_snd:
  "snd (get_trending_hashtags w s cat plat max_count)
   = snd (snd (try_sources w cat plat sources ([], [], s)))"
  by (simp add: get_trending_hashtags_def Let_def split_beta)

lemma get_trending_polite:
  "polite w cat s (snd (get_trending_hashtags w s cat plat max_count))"
  unfolding get_trending_snd try_sources_snd
  by (rule polite_trans [OF web_scraping_polite polite_trans [OF hashtagify_polite ritetag_polite]])

lemma step_polite:
  "blocked_sources s \<subseteq> blocked_sources (step c s)
   \<and> (\<exists>new. requests (step c s) = requests s @ new
              \<and> set new \<inter> blocked_sources s = {}
              \<and> (\<forall>h \<in> set new. answer c h = HTTPError 403 \<longrightarrow> h \<in> blocked_sources (step c s)))"
proof (cases c)
  case (Generate w request)
  with get_trending_polite [of w "request_category request" s "req_platform request" 8]
  show ?thesis by (simp add: generate_snd polite_def)
next
  case (GetTrending w cat plat max_count)
  with get_trending_polite [of w cat s plat max_count]
  show ?thesis by (simp add: polite_def)
next
  case (FetchWebScraping w cat plat)
  with web_scraping_polite [of w cat s plat] show ?thesis by (simp add: polite_def)
next
  case (FetchHashtagify w cat plat)
  with hashtagify_polite [of w cat s plat] show ?thesis by (simp add: polite_def)
next
  case (FetchRitetag w cat plat)
  with ritetag_polite [of w cat s plat] show ?thesis by (simp add: polite_def)
qed

lemma run_skips_blocked:
  "h \<in> blocked_sources s \<Longrightarrow>
   h \<in> blocked_sources (run calls s)
   \<and> filter ((=) h) (requests (run calls s)) = filter ((=) h) (requests s)"
proof (induction calls arbitrary: s)
  case Nil
  then show ?case by (simp add: run_def)
next
  case (Cons c calls)
  from step_polite [of s c] obtain new where
    n: "blocked_sources s \<subseteq> blocked_sources (step c s)"
       "requests (step c s) = requests s @ new" "set new \<inter> blocked_sources s = {}"
    by blast
  from n(1) Cons.prems have b: "h \<in> blocked_sources (step c s)" by blast
  from n(3) Cons.prems have "h \<notin> set new" by blast
  then have "filter ((=) h) new = []" by (auto simp: filter_empty_conv)
  with n(2) have "filter ((=) h) (requests (step c s)) = filter ((=) h) (requests s)" by simp
  with Cons.IH [OF b] show ?case by (simp add: run_def)
qed

lemma web_scraping_success: "tr_success (fst (fetch_trending_from_web_scraping w s cat plat))"
  by (simp add: fetch_trending_from_web_scraping_def Let_def split_beta split: option.splits)

text \<open>
  C3. In every call, a host that answers a request of the call with 403 is on the
  blocklist when the call returns, and no call of any later run on the same fetcher
  issues a request to it: the requests to that host in the trace stay what they were.
  A host on the blocklist stays there. For \<^verbatim>\<open>top-hashtags.com\<close>: the 403 answer adds the
  host and returns the empty list; on a blocked host the scrape returns the empty list
  and leaves the fetcher as it is, without a request; and the scraping provider returns a
  successful outcome in every case.
\<close>

theorem blocked_host_is_skipped:
  "(\<exists>new. requests (step c s) = requests s @ new
          \<and> (\<forall>h \<in> set new.
                 answer c h = HTTPError 403 \<longrightarrow>
                 h \<in> blocked_sources (step c s)
                 \<and> filter ((=) h) (requests (run calls (step c s)))
                     = filter ((=) h) (requests (step c s))))
   \<and> (h \<in> blocked_sources s \<longrightarrow>
        h \<in> blocked_sources (run calls s)
        \<and> filter ((=) h) (requests (run calls s)) = filter ((=) h) (requests s))
   \<and> (bs4_importable w \<and> ''top-hashtags.com'' \<notin> blocked_sources s
        \<and> http_get w ''top-hashtags.com'' (lower cat) = HTTPError 403 \<longrightarrow>
        scrape_instagram_trends w s cat
        = (Inr [], s\<lparr>requests := requests s @ [''top-hashtags.com''],
                      blocked_sources := insert ''top-hashtags.com'' (blocked_sources s)\<rparr>))
   \<and> (bs4_importable w \<and> ''top-hashtags.com'' \<in> blocked_sources s \<longrightarrow>
        scrape_instagram_trends w s cat = (Inr [], s))
   \<and> tr_success (fst (fetch_trending_from_web_scraping w s cat plat))"
proof -
  from step_polite [of s c] obtain new where
    n: "requests (step c s) = requests s @ new"
       "\<forall>h \<in> set new. answer c h = HTTPError 403 \<longrightarrow> h \<in> blocked_sources (step c s)"
    by blast
  have "\<forall>h \<in> set new.
          answer c h = HTTPError 403 \<longrightarrow>
          h \<in> blocked_sources (step c s)
          \<and> filter ((=) h) (requests (run calls (step c s)))
              = filter ((=) h) (requests (step c s))"
    using n(2) run_skips_blocked [of _ "step c s" calls] by blast
  with n(1) have a: "\<exists>new. requests (step c s) = requests s @ new
          \<and> (\<forall>h \<in> set new.
                 answer c h = HTTPError 403 \<longrightarrow>
                 h \<in> blocked_sources (step c s)
                 \<and> filter ((=) h) (requests (run calls (step c s)))
                     = filter ((=) h) (requests (step c s)))"
    by blast
  have b: "scrape_instagram_trends w s cat
        = (Inr [], s\<lparr>requests := requests s @ [''top-hashtags.com''],
                      blocked_sources := insert ''top-hashtags.com'' (blocked_sources s)\<rparr>)"
    if "bs4_importable w" "''top-hashtags.com'' \<notin> blocked_sources s"
       "http_get w ''top-hashtags.com'' (lower cat) = HTTPError 403"
    using that by (simp add: scrape_instagram_trends_def Let_def)
  have c: "scrape_instagram_trends w s cat = (Inr [], s)"
    if "bs4_importable w" "''top-hashtags.com'' \<in> blocked_sources s"
    using that by (simp add: scrape_instagram_trends_def Let_def)
  from a b c run_skips_blocked [of h s calls] web_scraping_success [of w s cat plat]
  show ?thesis by blast
qed

lemma first_call_requests:
  "requests (step first_call new_fetcher)
   = [''top-hashtags.com'', ''all-hashtag.com'', ''hashtagsforlikes.co'']"
  by code_simp

lemma second_call_requests:
  "requests (run [second_call] (step first_call new_fetcher))
   = [''top-hashtags.com'', ''all-hashtag.com'', ''hashtagsforlikes.co'']"
  by code_simp

lemma first_call_answer: "answer first_call ''top-hashtags.com'' = HTTPError 403"
  by code_simp

theorem blocked_host_is_skipped_witness:
  "answer first_call ''top-hashtags.com'' = HTTPError 403
   \<and> requests (step first_call new_fetcher)
       = requests new_fetcher @ [''top-hashtags.com'', ''all-hashtag.com'', ''hashtagsforlikes.co'']
   \<and> ''top-hashtags.com'' \<in> blocked_sources (step first_call new_fetcher)
   \<and> requests (run [second_call] (step first_call new_fetcher))
       = [''top-hashtags.com'', ''all-hashtag.com'', ''hashtagsforlikes.co'']
   \<and> filter ((=) ''top-hashtags.com'') (requests (run [second_call] (step first_call new_fetcher)))
       = filter ((=) ''top-hashtags.com'') (requests (step first_call new_fetcher))"
proof -
  from blocked_host_is_skipped [of first_call new_fetcher "[second_call]"] obtain new where
    n: "requests (step first_call new_fetcher) = requests new_fetcher @ new"
       "\<forall>h \<in> set new.
          answer first_call h = HTTPError 403 \<longrightarrow>
          h \<in> blocked_sources (step first_call new_fetcher)
          \<and> filter ((=) h) (requests (run [second_call] (step first_call new_fetcher)))
              = filter ((=) h) (requests (step first_call new_fetcher))"
    by blast
  have e: "requests new_fetcher = []" by (simp add: new_fetcher_def)
  with n(1) have "new = [''top-hashtags.com'', ''all-hashtag.com'', ''hashtagsforlikes.co'']"
    by (simp add: first_call_requests)
  with n(2) first_call_answer
  have "''top-hashtags.com'' \<in> blocked_sources (step first_call new_fetcher)
        \<and> filter ((=) ''top-hashtags.com'')
              (requests (run [second_call] (step first_call new_fetcher)))
            = filter ((=) ''top-hashtags.com'') (requests (step first_call new_fetcher))"
    by simp
  with e first_call_answer show ?thesis
    by (simp only: first_call_requests second_call_requests append_Nil simp_thms)
qed

section \<open>Scores of the records, and the trending score\<close>





















lemma try_sources_fst:
  "fst (try_sources w cat plat sources ([], [], s))
   = (let r1 = fetch_trending_from_web_scraping w s cat plat;
          r2 = fetch_trending_from_hashtagify w (snd r1) cat plat;
          r3 = fetch_trending_from_ritetag w (snd r2) cat plat
      in (if tr_success (fst r1) then tr_hashtags (fst r1) else [])
         @ (if tr_success (fst r2) then tr_hashtags (fst r2) else [])
         @ (if tr_success (fst r3) then tr_hashtags (fst r3) else []))"
  by (simp add: sources_def split_beta Let_def)













section \<open>The curated table as a floor\<close>

lemma table_rows:
  "list_all (\<lambda>cat. hashtags_list cat ''instagram'' \<noteq> [] \<and> hashtags_list cat ''facebook'' \<noteq> [])
     (map fst trending_data)"
  by code_simp

lemma table_nonempty:
  assumes "cat \<in> set (map fst trending_data)" and "plat = ''instagram'' \<or> plat = ''facebook''"
  shows "hashtags_list cat plat \<noteq> []"
  using assms table_rows by (auto simp: list_all_iff)

lemma curated_nonempty:
  "hashtags_list cat plat \<noteq> [] \<Longrightarrow> get_category_trending_hashtags w cat plat \<noteq> []"
  by (simp add: get_category_trending_hashtags_def enumerate_eq_zip)

lemma simulated_nonempty:
  "hashtags_list cat plat \<noteq> [] \<Longrightarrow> get_simulated_trending_data w cat plat source \<noteq> []"
  by (simp add: get_simulated_trending_data_def Let_def curated_nonempty)

lemma trend_websites_nonempty:
  assumes "hashtags_list cat plat \<noteq> []"
    and "fst (scrape_trend_websites w s cat plat) = Inr hs"
  shows "hs \<noteq> []"
  using assms curated_nonempty [OF assms(1), of w]
  by (auto simp: scrape_trend_websites_def Let_def split_beta split: if_splits)

lemma scrape_sources_nonempty:
  assumes "hashtags_list cat plat \<noteq> []"
    and "fst (scrape_sources w s cat plat) = Inr hs"
  shows "hs \<noteq> []"
  using assms(2) trend_websites_nonempty [OF assms(1)]
  by (fastforce simp: scrape_sources_def Let_def split_beta split: if_splits sum.splits prod.splits)

lemma scraped_or_simulated_nonempty:
  "hashtags_list cat plat \<noteq> [] \<Longrightarrow> scraped_or_simulated w r cat plat \<noteq> []"
  by (simp add: scraped_or_simulated_def Let_def simulated_nonempty split: sum.splits)

lemma no_empty_entry_hit:
  assumes "no_empty_entry s cat plat"
    and "provider \<in> {''webscrape'', ''hashtagify'', ''ritetag''}"
    and "get_from_cache s now (provider @ ''_'' @ cat @ ''_'' @ plat) = Some d"
  shows "cd_hashtags d \<noteq> []"
  using assms
  by (auto simp: no_empty_entry_def get_from_cache_eq split: option.splits if_splits)

lemma web_scraping_nonempty:
  assumes "hashtags_list cat plat \<noteq> []" and "no_empty_entry s cat plat"
  shows "tr_hashtags (fst (fetch_trending_from_web_scraping w s cat plat)) \<noteq> []"
proof (cases "get_from_cache s (clock_read w (''webscrape_'' @ cat @ ''_'' @ plat))
                (''webscrape_'' @ cat @ ''_'' @ plat)")
  case (Some d)
  with no_empty_entry_hit [OF assms(2), of "''webscrape''" _ d] show ?thesis
    by (simp add: fetch_trending_from_web_scraping_def)
next
  case None
  have "remove_duplicate_hashtags
          (scraped_or_simulated w (fst (scrape_sources w s cat plat)) cat plat) \<noteq> []"
    by (simp add: remove_duplicate_hashtags_empty_iff scraped_or_simulated_nonempty [OF assms(1)])
  with None show ?thesis
    by (simp add: fetch_trending_from_web_scraping_def Let_def split_beta)
qed

lemma hashtagify_nonempty:
  assumes "hashtags_list cat plat \<noteq> []" and "no_empty_entry s cat plat"
  shows "tr_hashtags (fst (fetch_trending_from_hashtagify w s cat plat)) \<noteq> []"
proof (cases "get_from_cache s (clock_read w (''hashtagify_'' @ cat @ ''_'' @ plat))
                (''hashtagify_'' @ cat @ ''_'' @ plat)")
  case (Some d)
  with no_empty_entry_hit [OF assms(2), of "''hashtagify''" _ d] show ?thesis
    by (simp add: fetch_trending_from_hashtagify_def)
next
  case None
  with simulated_nonempty [OF assms(1)] show ?thesis
    by (simp add: fetch_trending_from_hashtagify_def Let_def)
qed

lemma hashtagify_success: "tr_success (fst (fetch_trending_from_hashtagify w s cat plat))"
  by (simp add: fetch_trending_from_hashtagify_def Let_def split: option.splits)

lemma ritetag_success: "tr_success (fst (fetch_trending_from_ritetag w s cat plat))"
  by (simp add: fetch_trending_from_ritetag_def Let_def split: option.splits)

lemma pool_nonempty:
  assumes "hashtags_list cat plat \<noteq> []" and "no_empty_entry s cat plat"
  shows "fst (try_sources w cat plat sources ([], [], s)) \<noteq> []"
  using web_scraping_nonempty [OF assms, of w] web_scraping_success [of w s cat plat]
  by (simp add: try_sources_fst Let_def)

lemma get_trending_nonempty:
  assumes "hashtags_list cat plat \<noteq> []" and "no_empty_entry s cat plat"
  shows "tr_success (fst (get_trending_hashtags w s cat plat max_count))
         \<and> (0 < max_count \<longrightarrow> tr_hashtags (fst (get_trending_hashtags w s cat plat max_count)) \<noteq> [])"
proof -
  let ?pool = "fst (try_sources w cat plat sources ([], [], s))"
  from pool_nonempty [OF assms] have p: "?pool \<noteq> []" .
  then have u: "remove_duplicate_hashtags ?pool \<noteq> []"
    by (simp add: remove_duplicate_hashtags_empty_iff)
  from p have "tr_success (fst (get_trending_hashtags w s cat plat max_count))"
    by (simp add: get_trending_hashtags_def Let_def split_beta)
  moreover have "tr_hashtags (fst (get_trending_hashtags w s cat plat max_count)) \<noteq> []"
    if "0 < max_count"
    using that u unfolding get_trending_hashtags_hashtags by (simp add: py_take_def)
  ultimately show ?thesis by blast
qed

lemma new_fetcher_no_empty: "no_empty_entry new_fetcher cat plat"
  by (simp add: no_empty_entry_def new_fetcher_def)

text \<open>The cache keys of the table's categories and platforms belong to one provider, category and platform only.\<close>

lemma split_once:
  assumes "c \<notin> set a" and "c \<notin> set b" and "a @ c # b = a' @ c # b'"
  shows "a = a' \<and> b = b'"
proof -
  from assms(3) obtain us where
    "a = a' @ us \<and> us @ c # b = c # b' \<or> a @ us = a' \<and> c # b = us @ c # b'"
    by (auto simp: append_eq_append_conv2)
  then show ?thesis
  proof
    assume h: "a = a' @ us \<and> us @ c # b = c # b'"
    with assms(1) have "c \<notin> set us" by auto
    with h show ?thesis by (cases us) auto
  next
    assume h: "a @ us = a' \<and> c # b = us @ c # b'"
    with assms(2) show ?thesis by (cases us) auto
  qed
qed

lemma table_names_plain:
  "list_all (\<lambda>cat. CHR ''_'' \<notin> set cat) (map fst trending_data)"
  by code_simp

lemma key_unique:
  assumes p: "p \<in> {''webscrape'', ''hashtagify'', ''ritetag''}"
    and p': "p' \<in> {''webscrape'', ''hashtagify'', ''ritetag''}"
    and cat: "CHR ''_'' \<notin> set cat" and plat: "CHR ''_'' \<notin> set plat"
    and eq: "p @ ''_'' @ cat @ ''_'' @ plat = p' @ ''_'' @ cat' @ ''_'' @ plat'"
  shows "p = p' \<and> cat = cat' \<and> plat = plat'"
proof -
  from p p' eq have pp: "p = p'" by auto
  with eq have "cat @ CHR ''_'' # plat = cat' @ CHR ''_'' # plat'" by simp
  from split_once [OF cat plat this] pp show ?thesis by simp
qed

lemma table_key_unique:
  assumes "cat \<in> set (map fst trending_data)" and "plat = ''instagram'' \<or> plat = ''facebook''"
    and "p \<in> {''webscrape'', ''hashtagify'', ''ritetag''}"
    and "p' \<in> {''webscrape'', ''hashtagify'', ''ritetag''}"
    and "p @ ''_'' @ cat @ ''_'' @ plat = p' @ ''_'' @ cat' @ ''_'' @ plat'"
  shows "p = p' \<and> cat = cat' \<and> plat = plat'"
proof -
  from assms(1) table_names_plain have "CHR ''_'' \<notin> set cat" by (auto simp: list_all_iff)
  moreover from assms(2) have "CHR ''_'' \<notin> set plat" by auto
  ultimately show ?thesis using assms(3-5) by (intro key_unique)
qed

text \<open>Saving a list that is not empty when the key is one of the table's.\<close>

lemma save_floor:
  assumes floor: "table_floor s"
    and p': "p' \<in> {''webscrape'', ''hashtagify'', ''ritetag''}"
    and ne: "cat' \<in> set (map fst trending_data) \<and> (plat' = ''instagram'' \<or> plat' = ''facebook'')
             \<Longrightarrow> cd_hashtags d \<noteq> []"
  shows "table_floor (save_to_cache s now (p' @ ''_'' @ cat' @ ''_'' @ plat') d)"
  unfolding table_floor_def
proof (intro allI impI)
  fix cat plat
  assume t: "cat \<in> set (map fst trending_data) \<and> (plat = ''instagram'' \<or> plat = ''facebook'')"
  let ?s' = "save_to_cache s now (p' @ ''_'' @ cat' @ ''_'' @ plat') d"
  have "case cache ?s' (p @ ''_'' @ cat @ ''_'' @ plat) of
          None \<Rightarrow> True | Some e \<Rightarrow> cd_hashtags (data e) \<noteq> []"
    if p: "p \<in> {''webscrape'', ''hashtagify'', ''ritetag''}" for p
  proof (cases "p @ ''_'' @ cat @ ''_'' @ plat = p' @ ''_'' @ cat' @ ''_'' @ plat'")
    case True
    with table_key_unique [of cat plat p p' cat' plat'] t p p'
    have "cat = cat' \<and> plat = plat'" by blast
    with t ne have "cd_hashtags d \<noteq> []" by blast
    with True show ?thesis by (simp add: save_to_cache_def)
  next
    case False
    from floor t have "no_empty_entry s cat plat" by (simp add: table_floor_def)
    with p have "case cache s (p @ ''_'' @ cat @ ''_'' @ plat) of
                   None \<Rightarrow> True | Some e \<Rightarrow> cd_hashtags (data e) \<noteq> []"
      by (auto simp: no_empty_entry_def)
    with False show ?thesis by (simp add: save_to_cache_def)
  qed
  from this [of "''webscrape''"] this [of "''hashtagify''"] this [of "''ritetag''"]
  show "no_empty_entry ?s' cat plat"
    by (simp add: no_empty_entry_def)
qed

lemma table_floor_cong: "cache s1 = cache s \<Longrightarrow> table_floor s1 = table_floor s"
  by (simp add: table_floor_def no_empty_entry_def)

lemma hashtagify_floor:
  assumes "table_floor s"
  shows "table_floor (snd (fetch_trending_from_hashtagify w s cat plat))"
proof (cases "get_from_cache s (clock_read w (''hashtagify_'' @ cat @ ''_'' @ plat))
                (''hashtagify_'' @ cat @ ''_'' @ plat)")
  case (Some d)
  with assms show ?thesis by (simp add: fetch_trending_from_hashtagify_def)
next
  case None
  have "table_floor (save_to_cache s now (''hashtagify'' @ ''_'' @ cat @ ''_'' @ plat)
          \<lparr>cd_hashtags = get_simulated_trending_data w cat plat ''general'',
           cd_category = cat, cd_platform = plat\<rparr>)" for now
    using assms by (rule save_floor) (simp_all add: simulated_nonempty table_nonempty)
  with None show ?thesis by (simp add: fetch_trending_from_hashtagify_def Let_def)
qed

lemma ritetag_floor:
  assumes "table_floor s"
  shows "table_floor (snd (fetch_trending_from_ritetag w s cat plat))"
proof (cases "get_from_cache s (clock_read w (''ritetag_'' @ cat @ ''_'' @ plat))
                (''ritetag_'' @ cat @ ''_'' @ plat)")
  case (Some d)
  with assms show ?thesis by (simp add: fetch_trending_from_ritetag_def)
next
  case None
  have "table_floor (save_to_cache s now (''ritetag'' @ ''_'' @ cat @ ''_'' @ plat)
          \<lparr>cd_hashtags = get_simulated_trending_data w cat plat ''ritetag'',
           cd_category = cat, cd_platform = plat\<rparr>)" for now
    using assms by (rule save_floor) (simp_all add: simulated_nonempty table_nonempty)
  with None show ?thesis by (simp add: fetch_trending_from_ritetag_def Let_def)
qed

lemma web_scraping_floor:
  assumes "table_floor s"
  shows "table_floor (snd (fetch_trending_from_web_scraping w s cat plat))"
proof (cases "get_from_cache s (clock_read w (''webscrape_'' @ cat @ ''_'' @ plat))
                (''webscrape_'' @ cat @ ''_'' @ plat)")
  case (Some d)
  with assms show ?thesis by (simp add: fetch_trending_from_web_scraping_def)
next
  case None
  let ?s1 = "snd (scrape_sources w s cat plat)"
  let ?l = "take 20 (remove_duplicate_hashtags
                (scraped_or_simulated w (fst (scrape_sources w s cat plat)) cat plat))"
  have s1: "table_floor ?s1"
    using assms table_floor_cong [OF scrape_sources_keeps_cache] by simp
  have ne: "?l \<noteq> []"
    if "cat \<in> set (map fst trending_data) \<and> (plat = ''instagram'' \<or> plat = ''facebook'')"
    using that
    by (simp add: remove_duplicate_hashtags_empty_iff scraped_or_simulated_nonempty table_nonempty)
  have "table_floor (save_to_cache ?s1 now (''webscrape'' @ ''_'' @ cat @ ''_'' @ plat)
          \<lparr>cd_hashtags = ?l, cd_category = cat, cd_platform = plat\<rparr>)" for now
    using s1 by (rule save_floor) (use ne in simp_all)
  with None show ?thesis
    by (simp add: fetch_trending_from_web_scraping_def Let_def split_beta)
qed

lemma step_floor: "table_floor s \<Longrightarrow> table_floor (step c s)"
  using web_scraping_floor hashtagify_floor ritetag_floor
  by (cases c) (simp_all add: generate_snd get_trending_snd try_sources_snd)

lemma run_floor: "table_floor s \<Longrightarrow> table_floor (run calls s)"
  by (induction calls arbitrary: s) (simp_all add: run_def step_floor)

lemma new_fetcher_floor: "table_floor new_fetcher"
  by (simp add: table_floor_def new_fetcher_no_empty)

text \<open>
  C8, as amended. For every category of the curated table and the platform
  \<^verbatim>\<open>instagram\<close> or \<^verbatim>\<open>facebook\<close>, the curated table gives at least one record; so,
  whatever the network providers yield, \<^verbatim>\<open>get_trending_hashtags\<close> succeeds on every
  fetcher that calls have made of a new one, and returns at least one record when
  \<open>max_count\<close> is positive. The curated provider has one record for each tag of the
  table's list and cannot fail, and the three providers return a successful outcome in
  every case.
\<close>

theorem curated_table_is_a_floor:
  "(cat \<in> set (map fst trending_data) \<and> (plat = ''instagram'' \<or> plat = ''facebook'') \<longrightarrow>
      get_category_trending_hashtags w cat plat \<noteq> []
      \<and> tr_success (fst (get_trending_hashtags w (run calls new_fetcher) cat plat max_count))
      \<and> (0 < max_count \<longrightarrow>
           tr_hashtags (fst (get_trending_hashtags w (run calls new_fetcher) cat plat max_count))
             \<noteq> []))
   \<and> length (get_category_trending_hashtags w cat plat) = length (hashtags_list cat plat)
   \<and> tr_success (fst (fetch_trending_from_hashtagify w s cat plat))
   \<and> tr_success (fst (fetch_trending_from_ritetag w s cat plat))
   \<and> tr_success (fst (fetch_trending_from_web_scraping w s cat plat))"
proof -
  have a: "get_category_trending_hashtags w cat plat \<noteq> []"
    if "cat \<in> set (map fst trending_data)" "plat = ''instagram'' \<or> plat = ''facebook''"
    using table_nonempty [OF that] by (rule curated_nonempty)
  have b: "tr_success (fst (get_trending_hashtags w (run calls new_fetcher) cat plat max_count))
           \<and> (0 < max_count \<longrightarrow>
                tr_hashtags (fst (get_trending_hashtags w (run calls new_fetcher) cat plat
                                    max_count)) \<noteq> [])"
    if t: "cat \<in> set (map fst trending_data)" "plat = ''instagram'' \<or> plat = ''facebook''"
  proof -
    have "table_floor (run calls new_fetcher)"
      by (rule run_floor [OF new_fetcher_floor])
    with t have "no_empty_entry (run calls new_fetcher) cat plat"
      by (simp add: table_floor_def)
    with table_nonempty [OF t] show ?thesis by (rule get_trending_nonempty)
  qed
  have c: "length (get_category_trending_hashtags w cat plat) = length (hashtags_list cat plat)"
    by (simp add: get_category_trending_hashtags_def)
  from a b c hashtagify_success ritetag_success web_scraping_success
  show ?thesis by blast
qed

lemma food_trending:
  "map hashtag
     (tr_hashtags (fst (get_trending_hashtags blocked_world new_fetcher ''food'' ''instagram'' 8)))
   = [''#foodie2025RT'', ''#healthyrecipesRT'', ''#plantbasedmealsRT'',
      ''#foodie2025'', ''#foodphotographyRT'', ''#healthyrecipes'',
      ''#homecookingRT'', ''#plantbasedmeals'']"
  by code_simp

theorem curated_table_is_a_floor_witness:
  "''food'' \<in> set (map fst trending_data)
   \<and> map hashtag (get_category_trending_hashtags blocked_world ''food'' ''instagram'')
       = [''#foodie2025'', ''#healthyrecipes'', ''#plantbasedmeals'', ''#foodphotography'',
          ''#homecooking'']
   \<and> (0 :: int) < 8
   \<and> tr_success (fst (get_trending_hashtags blocked_world (run [] new_fetcher) ''food''
                         ''instagram'' 8))
   \<and> map hashtag
         (tr_hashtags (fst (get_trending_hashtags blocked_world (run [] new_fetcher) ''food''
                              ''instagram'' 8)))
       = [''#foodie2025RT'', ''#healthyrecipesRT'', ''#plantbasedmealsRT'',
          ''#foodie2025'', ''#foodphotographyRT'', ''#healthyrecipes'',
          ''#homecookingRT'', ''#plantbasedmeals'']"
proof -
  have m: "''food'' \<in> set (map fst trending_data)"
    by (simp add: trending_data_def)
  have c: "map hashtag (get_category_trending_hashtags blocked_world ''food'' ''instagram'')
           = [''#foodie2025'', ''#healthyrecipes'', ''#plantbasedmeals'', ''#foodphotography'',
              ''#homecooking'']"
    by code_simp
  have r: "run [] new_fetcher = new_fetcher"
    by (simp add: run_def)
  from curated_table_is_a_floor [of "''food''" "''instagram''" blocked_world "[]" 8] m
  have "tr_success (fst (get_trending_hashtags blocked_world (run [] new_fetcher) ''food''
                           ''instagram'' 8))"
    by blast
  with m c show ?thesis by (simp add: food_trending r)
qed

text \<open>
  C8 as stated fails: \<^verbatim>\<open>food\<close> is a category of the table, and for the platform
  \<^verbatim>\<open>twitter\<close> the curated table gives no record and the pipeline, with every host
  answering 403, none either.
\<close>

theorem curated_table_is_a_floor_counterexample:
  "''food'' \<in> set (map fst trending_data)
   \<and> get_category_trending_hashtags blocked_world ''food'' ''twitter'' = []
   \<and> \<not> tr_success (fst (get_trending_hashtags blocked_world new_fetcher ''food'' ''twitter'' 8))
   \<and> tr_hashtags (fst (get_trending_hashtags blocked_world new_fetcher ''food'' ''twitter'' 8))
       = []"
proof -
  have "''food'' \<in> set (map fst trending_data)"
    by (simp add: trending_data_def)
  moreover have "get_category_trending_hashtags blocked_world ''food'' ''twitter'' = []"
    by code_simp
  moreover have
    "\<not> tr_success (fst (get_trending_hashtags blocked_world new_fetcher ''food'' ''twitter'' 8))"
    by code_simp
  moreover have
    "tr_hashtags (fst (get_trending_hashtags blocked_world new_fetcher ''food'' ''twitter'' 8))
     = []"
    by code_simp
  ultimately show ?thesis by blast
qed

end
